theory Spec2Isabelle
  imports Main "HOL-Library.Sublist" "HOL-Library.Multiset" "HOL-Library.Log_Nat"
begin

section \<open>Python values\<close>

text \<open>
  The generator script \<^verbatim>\<open>scripts/generate_training_data.py\<close> works on plain Python
  values: strings, integers, booleans, \<^verbatim>\<open>None\<close>, lists and dictionaries with string
  keys. A dictionary is an association list in insertion order (Python dictionaries keep
  insertion order, and \<^verbatim>\<open>json.dumps\<close> and \<^verbatim>\<open>dict.items\<close> follow it); its keys are
  distinct. Strings are lists of characters with codes below 256; every string literal
  of the script that takes part in generation is ASCII. Floating-point values do not occur in
  any value the script builds and are not part of the model.
\<close>

datatype pyval =
    PNone
  | PBool bool
  | PInt int
  | PStr string
  | PList "pyval list"
  | PDict "(string \<times> pyval) list"

datatype error =
    AttributeError
  | IndexError
  | KeyError string
  | TypeError
  | ValueError

subsection \<open>Dictionary access\<close>

text \<open>\<^verbatim>\<open>d.get(k)\<close>, \<^verbatim>\<open>k in d\<close> and \<^verbatim>\<open>d[k] = v\<close>. An assignment to a key that is
  present replaces its value and keeps its position; a new key goes to the end.\<close>

definition dict_get :: "(string \<times> pyval) list \<Rightarrow> string \<Rightarrow> pyval option" where
  "dict_get d k = map_of d k"

definition dict_has :: "(string \<times> pyval) list \<Rightarrow> string \<Rightarrow> bool" where
  "dict_has d k = (map_of d k \<noteq> None)"

fun dict_set :: "(string \<times> pyval) list \<Rightarrow> string \<Rightarrow> pyval \<Rightarrow> (string \<times> pyval) list" where
  "dict_set [] k v = [(k, v)]"
| "dict_set ((k', v') # d) k v = (if k' = k then (k, v) # d else (k', v') # dict_set d k v)"

section \<open>Text of numbers and JSON\<close>

definition digit_char :: "nat \<Rightarrow> char" where
  "digit_char d = char_of (48 + d)"

fun str_nat :: "nat \<Rightarrow> string" where
  "str_nat n = (if n < 10 then [digit_char n] else str_nat (n div 10) @ [digit_char (n mod 10)])"

declare str_nat.simps [simp del]

text \<open>\<^verbatim>\<open>str(i)\<close> for an integer: decimal digits, a minus sign for negatives.\<close>

definition str_int :: "int \<Rightarrow> string" where
  "str_int i = (if i < 0 then CHR ''-'' # str_nat (nat (- i)) else str_nat (nat i))"

definition hex_char :: "nat \<Rightarrow> char" where
  "hex_char d = (if d < 10 then char_of (48 + d) else char_of (87 + d))"

text \<open>The string escaping of \<^verbatim>\<open>json.dumps\<close> with its default \<^verbatim>\<open>ensure_ascii=True\<close>:
  the quote and the backslash get a backslash, the five short control escapes are used, and
  every other character outside the range from space to tilde becomes \<^verbatim>\<open>\u00XX\<close>.\<close>

definition json_escape_char :: "char \<Rightarrow> string" where
  "json_escape_char c =
     (if c = CHR 0x22 then [CHR 0x5C, CHR 0x22]
      else if c = CHR 0x5C then [CHR 0x5C, CHR 0x5C]
      else if c = CHR 0x0A then [CHR 0x5C, CHR ''n'']
      else if c = CHR 0x0D then [CHR 0x5C, CHR ''r'']
      else if c = CHR 0x09 then [CHR 0x5C, CHR ''t'']
      else if c = CHR 0x08 then [CHR 0x5C, CHR ''b'']
      else if c = CHR 0x0C then [CHR 0x5C, CHR ''f'']
      else if of_char c < (32::nat) \<or> (126::nat) < of_char c
        then [CHR 0x5C, CHR ''u'', CHR ''0'', CHR ''0'',
              hex_char (of_char c div 16), hex_char (of_char c mod 16)]
      else [c])"

definition json_string :: "string \<Rightarrow> string" where
  "json_string s = CHR 0x22 # concat (map json_escape_char s) @ [CHR 0x22]"

text \<open>\<^verbatim>\<open>sep.join(parts)\<close>.\<close>

fun join :: "string \<Rightarrow> string list \<Rightarrow> string" where
  "join sep [] = []"
| "join sep [p] = p"
| "join sep (p # q # ps) = p @ sep @ join sep (q # ps)"

text \<open>\<^verbatim>\<open>json.dumps(v, separators=(isep, ksep))\<close>. The encoder calls it with
  \<^verbatim>\<open>(',', ':')\<close>; the writer of the corpus files uses the defaults \<^verbatim>\<open>(', ', ': ')\<close>.\<close>

fun json_dumps :: "string \<Rightarrow> string \<Rightarrow> pyval \<Rightarrow> string" where
  "json_dumps isep ksep PNone = ''null''"
| "json_dumps isep ksep (PBool b) = (if b then ''true'' else ''false'')"
| "json_dumps isep ksep (PInt i) = str_int i"
| "json_dumps isep ksep (PStr s) = json_string s"
| "json_dumps isep ksep (PList vs) =
     ''['' @ join isep (map (json_dumps isep ksep) vs) @ '']''"
| "json_dumps isep ksep (PDict kvs) =
     ''{'' @ join isep (map (\<lambda>kv. json_string (fst kv) @ ksep @ json_dumps isep ksep (snd kv)) kvs)
       @ ''}''"

section \<open>The encoder\<close>

text \<open>\<^verbatim>\<open>escape(value)\<close>. A boolean is tested before the numbers, as in the source
  (a Python boolean is an integer too). The last branch, \<^verbatim>\<open>str(value)\<close>, is reached
  by strings, which \<^verbatim>\<open>str\<close> returns as they are, and by \<^verbatim>\<open>None\<close>.\<close>

fun escape :: "pyval \<Rightarrow> string" where
  "escape (PDict kvs) = json_dumps '','' '':'' (PDict kvs)"
| "escape (PList vs) = json_dumps '','' '':'' (PList vs)"
| "escape (PBool b) = (if b then ''true'' else ''false'')"
| "escape (PInt i) = str_int i"
| "escape (PStr s) = s"
| "escape PNone = ''None''"

definition param_part :: "string \<times> pyval \<Rightarrow> string" where
  "param_part kv = fst kv @ '':<escape>'' @ escape (snd kv) @ ''<escape>''"

definition make_function_call :: "string \<Rightarrow> (string \<times> pyval) list \<Rightarrow> string" where
  "make_function_call func_name params =
     ''<start_function_call>call:'' @ func_name @ ''{''
       @ join '','' (map param_part params) @ ''}<end_function_call>''"

section \<open>The legacy encoding path\<close>

text \<open>\<^verbatim>\<open>make_function_call_from_dict(output_dict)\<close> turns an old-style descriptor into the
  function-call string. It reads the descriptor with \<^verbatim>\<open>.get\<close>, \<^verbatim>\<open>in\<close> and
  \<^verbatim>\<open>[]\<close>, builds the parameter dictionary key by key and hands it to
  \<^verbatim>\<open>make_function_call\<close>. A value without a \<^verbatim>\<open>get\<close> method (anything but a
  dictionary) raises \<^verbatim>\<open>AttributeError\<close>.\<close>

definition get_default :: "(string \<times> pyval) list \<Rightarrow> string \<Rightarrow> pyval \<Rightarrow> pyval" where
  "get_default d k dflt = (case dict_get d k of None \<Rightarrow> dflt | Some v \<Rightarrow> v)"

text \<open>\<^verbatim>\<open>if k in output_dict: params[k] = output_dict[k]\<close>\<close>

definition copy_if_present ::
  "(string \<times> pyval) list \<Rightarrow> string \<Rightarrow> (string \<times> pyval) list \<Rightarrow> (string \<times> pyval) list" where
  "copy_if_present d k params = (case dict_get d k of None \<Rightarrow> params | Some v \<Rightarrow> dict_set params k v)"

text \<open>\<^verbatim>\<open>for k, v in output_dict["filter"].items(): params[k] = v\<close>\<close>

fun flatten_filter :: "(string \<times> pyval) list \<Rightarrow> (string \<times> pyval) list \<Rightarrow> (string \<times> pyval) list" where
  "flatten_filter [] params = params"
| "flatten_filter ((k, v) # kvs) params = flatten_filter kvs (dict_set params k v)"

text \<open>What a \<^verbatim>\<open>for\<close> loop over a value iterates: the items of a list, the characters of a
  string, the keys of a dictionary; other values are not iterable.\<close>

fun py_iter :: "pyval \<Rightarrow> error + pyval list" where
  "py_iter (PList vs) = Inr vs"
| "py_iter (PStr s) = Inr (map (\<lambda>c. PStr [c]) s)"
| "py_iter (PDict kvs) = Inr (map (\<lambda>kv. PStr (fst kv)) kvs)"
| "py_iter v = Inl TypeError"

text \<open>The body of the loop over the items of a batch.\<close>

fun batch_item :: "pyval \<Rightarrow> error + pyval" where
  "batch_item (PDict item) =
     Inr (PDict (copy_if_present item ''links''
       [(''atom_type'', get_default item ''type'' (PStr ''task'')),
        (''title'', get_default item ''title'' (PStr ''Untitled''))]))"
| "batch_item v = Inl AttributeError"

fun batch_items :: "pyval list \<Rightarrow> error + pyval list" where
  "batch_items [] = Inr []"
| "batch_items (item # rest) =
     (case batch_item item of
        Inl e \<Rightarrow> Inl e
      | Inr item_dict \<Rightarrow>
          (case batch_items rest of Inl e \<Rightarrow> Inl e | Inr items \<Rightarrow> Inr (item_dict # items)))"

definition search_params :: "(string \<times> pyval) list \<Rightarrow> error + (string \<times> pyval) list" where
  "search_params od =
     (let p1 = copy_if_present od ''query'' [];
          p2 = (case dict_get od ''type'' of None \<Rightarrow> p1 | Some ty \<Rightarrow> dict_set p1 ''types'' (PList [ty]))
      in case dict_get od ''filter'' of
           None \<Rightarrow> Inr (copy_if_present od ''target'' (copy_if_present od ''mode'' p2))
         | Some (PDict flt) \<Rightarrow>
             Inr (copy_if_present od ''target'' (copy_if_present od ''mode'' (flatten_filter flt p2)))
         | Some _ \<Rightarrow> Inl AttributeError)"

definition make_function_call_from_dict :: "pyval \<Rightarrow> error + string" where
  "make_function_call_from_dict output_dict =
     (case output_dict of
        PDict od \<Rightarrow>
          (let action = dict_get od ''action'' in
           if action = Some (PStr ''create'') then
             Inr (make_function_call ''create_atom''
               (copy_if_present od ''links'' (copy_if_present od ''metadata'' (copy_if_present od ''body''
                  [(''atom_type'', get_default od ''type'' (PStr ''idea'')),
                   (''title'', get_default od ''title'' (PStr ''Untitled''))]))))
           else if action = Some (PStr ''update'') then
             Inr (make_function_call ''update_atom''
               (copy_if_present od ''links'' (copy_if_present od ''metadata'' (copy_if_present od ''body''
                  (copy_if_present od ''title''
                     [(''target'', get_default od ''target'' (PStr ''context''))])))))
           else if action = Some (PStr ''delete'') then
             Inr (make_function_call ''delete_atom''
               [(''target'', get_default od ''target'' (PStr ''context''))])
           else if action = Some (PStr ''search'') then
             (case search_params od of
                Inl e \<Rightarrow> Inl e
              | Inr params \<Rightarrow> Inr (make_function_call ''search_atoms'' params))
           else if action = Some (PStr ''batch'') then
             (case py_iter (get_default od ''items'' (PList [])) of
                Inl e \<Rightarrow> Inl e
              | Inr its \<Rightarrow>
                  (case batch_items its of
                     Inl e \<Rightarrow> Inl e
                   | Inr items \<Rightarrow> Inr (make_function_call ''batch_create'' [(''items'', PList items)])))
           else if action = Some (PStr ''navigate'') then
             Inr (make_function_call ''navigate''
               [(''destination'', get_default od ''destination'' (PStr ''home''))])
           else
             Inr (make_function_call ''create_atom''
               [(''atom_type'', PStr ''idea''), (''title'', PStr ''Unknown'')]))
      | _ \<Rightarrow> Inl AttributeError)"

section \<open>The validator\<close>

definition valid_functions :: "string list" where
  "valid_functions =
     [''create_atom'', ''update_atom'', ''delete_atom'', ''search_atoms'',
      ''batch_create'', ''navigate'', ''query_level_system'',
      ''start_deep_work'', ''stop_deep_work'', ''extend_deep_work'',
      ''log_workout'', ''trigger_correlation_analysis'']"

definition valid_actions :: "string list" where
  "valid_actions = [''create'', ''update'', ''delete'', ''search'', ''batch'', ''navigate'']"

text \<open>The characters \<^verbatim>\<open>\w\<close> matches, among the ASCII characters: letters, digits and the
  underscore.\<close>

definition is_word_char :: "char \<Rightarrow> bool" where
  "is_word_char c =
     (let n = (of_char c :: nat)
      in (48 \<le> n \<and> n \<le> 57) \<or> (65 \<le> n \<and> n \<le> 90) \<or> (97 \<le> n \<and> n \<le> 122) \<or> n = 95)"

text \<open>\<^verbatim>\<open>re.search(r"call:(\w+)\{", output)\<close>, giving group 1 of the leftmost match. At a
  position where \<^verbatim>\<open>call:\<close> starts, the greedy \<^verbatim>\<open>\w+\<close> takes the longest run of word
  characters; the match succeeds there exactly when that run is not empty and a brace
  follows it (a shorter run would be followed by a word character, not by the brace).\<close>

fun re_search_call :: "string \<Rightarrow> string option" where
  "re_search_call [] = None"
| "re_search_call (c # cs) =
     (if prefix ''call:'' (c # cs)
        \<and> takeWhile is_word_char (drop 5 (c # cs)) \<noteq> []
        \<and> prefix ''{'' (dropWhile is_word_char (drop 5 (c # cs)))
      then Some (takeWhile is_word_char (drop 5 (c # cs)))
      else re_search_call cs)"

text \<open>Truth value of a Python value, as \<^verbatim>\<open>if action and ...\<close> tests it.\<close>

fun truthy :: "pyval \<Rightarrow> bool" where
  "truthy PNone = False"
| "truthy (PBool b) = b"
| "truthy (PInt i) = (i \<noteq> 0)"
| "truthy (PStr s) = (s \<noteq> [])"
| "truthy (PList vs) = (vs \<noteq> [])"
| "truthy (PDict kvs) = (kvs \<noteq> [])"

text \<open>The check of one example, with its index; the result is the list of findings it adds
  (none or one). Looking a list or a dictionary up in the set of valid actions raises
  \<^verbatim>\<open>TypeError\<close> (unhashable).\<close>

definition example_prefix :: "nat \<Rightarrow> string" where
  "example_prefix i = ''Example '' @ str_nat i @ '': ''"

fun invalid_action :: "nat \<Rightarrow> pyval \<Rightarrow> error + string list" where
  "invalid_action i (PStr a) =
     Inr (if a \<noteq> [] \<and> a \<notin> set valid_actions
          then [example_prefix i @ ''Invalid action '' @ [CHR 0x27] @ a @ [CHR 0x27]] else [])"
| "invalid_action i (PInt n) =
     Inr (if n \<noteq> 0
          then [example_prefix i @ ''Invalid action '' @ [CHR 0x27] @ str_int n @ [CHR 0x27]] else [])"
| "invalid_action i (PBool b) =
     Inr (if b then [example_prefix i @ ''Invalid action '' @ [CHR 0x27] @ ''True'' @ [CHR 0x27]] else [])"
| "invalid_action i PNone = Inr []"
| "invalid_action i (PList vs) = (if vs = [] then Inr [] else Inl TypeError)"
| "invalid_action i (PDict kvs) = (if kvs = [] then Inr [] else Inl TypeError)"

definition validate_output :: "nat \<Rightarrow> pyval \<Rightarrow> error + string list" where
  "validate_output i output =
     (case output of
        PStr s \<Rightarrow>
          Inr (if \<not> prefix ''<start_function_call>'' s
                 then [example_prefix i @ ''Missing <start_function_call> prefix'']
               else if \<not> suffix ''<end_function_call>'' s
                 then [example_prefix i @ ''Missing <end_function_call> suffix'']
               else (case re_search_call s of
                       Some func_name \<Rightarrow>
                         if func_name \<notin> set valid_functions
                         then [example_prefix i @ ''Unknown function '' @ [CHR 0x27] @ func_name @ [CHR 0x27]]
                         else []
                     | None \<Rightarrow> [example_prefix i @ ''Could not parse function name'']))
      | PDict od \<Rightarrow>
          (case dict_get od ''action'' of None \<Rightarrow> Inr [] | Some action \<Rightarrow> invalid_action i action)
      | _ \<Rightarrow> Inr [])"

definition validate_example :: "nat \<Rightarrow> pyval \<Rightarrow> error + string list" where
  "validate_example i ex =
     (case ex of
        PDict e \<Rightarrow> validate_output i (get_default e ''output'' (PStr ''''))
      | _ \<Rightarrow> Inl AttributeError)"

fun validate_from :: "nat \<Rightarrow> pyval list \<Rightarrow> error + string list" where
  "validate_from i [] = Inr []"
| "validate_from i (ex # exs) =
     (case validate_example i ex of
        Inl e \<Rightarrow> Inl e
      | Inr found \<Rightarrow>
          (case validate_from (Suc i) exs of Inl e \<Rightarrow> Inl e | Inr issues \<Rightarrow> Inr (found @ issues)))"

definition validate_examples :: "pyval list \<Rightarrow> error + string list" where
  "validate_examples examples = validate_from 0 examples"

section \<open>The conversation envelope\<close>

definition FUNCTIONGEMMA_SYSTEM_PROMPT :: string where
  "FUNCTIONGEMMA_SYSTEM_PROMPT =
     ''You are FunctionGemma, the CosmoOS Micro-Brain. You interpret user voice commands and output exactly ONE function call.''
     @ [CHR 0x0A]
     @ ''You NEVER reason, explain, or generate text. You ONLY output function calls in the format:''
     @ [CHR 0x0A]
     @ ''<start_function_call>call:FUNCTION_NAME{params}<end_function_call>''
     @ [CHR 0x0A, CHR 0x0A]
     @ ''Available functions: create_atom, update_atom, delete_atom, search_atoms, batch_create, navigate, query_level_system, start_deep_work, stop_deep_work, extend_deep_work, log_workout, trigger_correlation_analysis''"

text \<open>\<^verbatim>\<open>ex[k]\<close> on an example.\<close>

definition subscript :: "pyval \<Rightarrow> string \<Rightarrow> error + pyval" where
  "subscript v k =
     (case v of
        PDict d \<Rightarrow> (case dict_get d k of None \<Rightarrow> Inl (KeyError k) | Some x \<Rightarrow> Inr x)
      | _ \<Rightarrow> Inl TypeError)"

text \<open>The output string of one example: an output that is a string already is kept, any
  other goes through the legacy path.\<close>

definition encoded_output :: "pyval \<Rightarrow> error + string" where
  "encoded_output ex =
     (case subscript ex ''output'' of
        Inl e \<Rightarrow> Inl e
      | Inr (PStr s) \<Rightarrow> Inr s
      | Inr v \<Rightarrow> make_function_call_from_dict v)"

definition envelope :: "pyval \<Rightarrow> string \<Rightarrow> pyval" where
  "envelope user_content output =
     PDict [(''messages'', PList
       [PDict [(''role'', PStr ''developer''), (''content'', PStr FUNCTIONGEMMA_SYSTEM_PROMPT)],
        PDict [(''role'', PStr ''user''), (''content'', user_content)],
        PDict [(''role'', PStr ''model''), (''content'', PStr output)]])]"

definition format_example :: "pyval \<Rightarrow> error + pyval" where
  "format_example ex =
     (case encoded_output ex of
        Inl e \<Rightarrow> Inl e
      | Inr output \<Rightarrow>
          (case subscript ex ''input'' of
             Inl e \<Rightarrow> Inl e
           | Inr inp \<Rightarrow> Inr (envelope inp output)))"

fun format_for_mlx_lm :: "pyval list \<Rightarrow> error + pyval list" where
  "format_for_mlx_lm [] = Inr []"
| "format_for_mlx_lm (ex # examples) =
     (case format_example ex of
        Inl e \<Rightarrow> Inl e
      | Inr m \<Rightarrow>
          (case format_for_mlx_lm examples of Inl e \<Rightarrow> Inl e | Inr formatted \<Rightarrow> Inr (m # formatted)))"

section \<open>The random source\<close>

text \<open>All randomness of the script comes from the one generator of Python's
  \<^verbatim>\<open>random\<close> module. The model makes the source explicit: a state holds the sequence of
  raw draws still to come and the position in it, and every function that draws returns
  the state it leaves. A theorem for every state is a theorem for every run.
  \<^verbatim>\<open>randbelow n\<close> is the module's draw of an index below \<open>n\<close>.\<close>

datatype rng = Rng "nat \<Rightarrow> nat" nat

fun randbelow :: "nat \<Rightarrow> rng \<Rightarrow> nat \<times> rng" where
  "randbelow n (Rng draws pos) = (draws pos mod n, Rng draws (Suc pos))"

text \<open>\<^verbatim>\<open>random.choice(seq)\<close>: an element at a drawn index; \<^verbatim>\<open>IndexError\<close> on an
  empty sequence.\<close>

definition choice :: "'a list \<Rightarrow> rng \<Rightarrow> error + ('a \<times> rng)" where
  "choice seq g =
     (if seq = [] then Inl IndexError
      else (case randbelow (length seq) g of (j, g') \<Rightarrow> Inr (seq ! j, g')))"

text \<open>\<^verbatim>\<open>random.sample(population, k)\<close>: \<open>k\<close> elements at distinct positions, in the
  order drawn; \<^verbatim>\<open>ValueError\<close> when \<open>k\<close> exceeds the population. The library selects
  without replacement; the model is its pool algorithm: draw a position of the pool, take
  the element, move the last element of the pool into the hole.\<close>

fun sample_pool :: "nat \<Rightarrow> 'a list \<Rightarrow> rng \<Rightarrow> 'a list \<times> rng" where
  "sample_pool 0 pool g = ([], g)"
| "sample_pool (Suc k) pool g =
     (case randbelow (length pool) g of
        (j, g') \<Rightarrow>
          (case sample_pool k (butlast (pool[j := last pool])) g' of
             (rest, g'') \<Rightarrow> (pool ! j # rest, g'')))"

definition sample :: "'a list \<Rightarrow> nat \<Rightarrow> rng \<Rightarrow> error + ('a list \<times> rng)" where
  "sample population k g =
     (if length population < k then Inl ValueError else Inr (sample_pool k population g))"

text \<open>\<^verbatim>\<open>random.shuffle(x)\<close>, the library's loop:
  \<^verbatim>\<open>for i in reversed(range(1, len(x))): j = randbelow(i + 1); x[i], x[j] = x[j], x[i]\<close>.
  \<open>shuffle_from i\<close> runs the iterations for the indices \<open>i\<close> down to 1.\<close>

fun shuffle_from :: "nat \<Rightarrow> 'a list \<Rightarrow> rng \<Rightarrow> 'a list \<times> rng" where
  "shuffle_from 0 x g = (x, g)"
| "shuffle_from (Suc i) x g =
     (case randbelow (Suc (Suc i)) g of
        (j, g') \<Rightarrow> shuffle_from i (x[Suc i := x ! j, j := x ! Suc i]) g')"

definition shuffle :: "'a list \<Rightarrow> rng \<Rightarrow> 'a list \<times> rng" where
  "shuffle x g = shuffle_from (length x - 1) x g"

section \<open>The split index\<close>

text \<open>\<^verbatim>\<open>split_idx = int(len(all_examples) * 0.9)\<close> is a product of two binary64 numbers,
  rounded to the nearest binary64 number (ties to even), then truncated. The model computes
  it exactly, in integers. The literal \<^verbatim>\<open>0.9\<close> denotes the binary64 number
  \<open>8106479329266893 / 2^53\<close>, and a length below \<open>2^53\<close> converts to binary64 without
  rounding. So the exact product is \<open>len * 8106479329266893 / 2^53\<close>;
  \<open>round_to_53\<close> rounds its numerator to 53 significant bits, which is the rounding of the
  product, and the integer division by \<open>2^53\<close> is the truncation.\<close>

definition mantissa_0_9 :: nat where
  "mantissa_0_9 = 8106479329266893"

definition round_to_53 :: "nat \<Rightarrow> nat" where
  "round_to_53 n =
     (let bits = floorlog 2 n in
      if bits \<le> 53 then n
      else
        (let s = bits - 53;
             q = n div 2 ^ s;
             r = n mod 2 ^ s;
             half = 2 ^ (s - 1)
         in (if half < r \<or> (r = half \<and> odd q) then q + 1 else q) * 2 ^ s))"

definition split_index :: "nat \<Rightarrow> nat" where
  "split_index len = round_to_53 (len * mantissa_0_9) div 2 ^ 53"

section \<open>Text operations of the generators\<close>

text \<open>\<^verbatim>\<open>pat in s\<close> for strings.\<close>

fun contains :: "string \<Rightarrow> string \<Rightarrow> bool" where
  "contains pat [] = (pat = [])"
| "contains pat (c # cs) = (prefix pat (c # cs) \<or> contains pat cs)"

text \<open>\<^verbatim>\<open>s.replace(old, new)\<close> for a non-empty \<open>old\<close>: the occurrences of \<open>old\<close> are
  found from left to right and do not overlap. The counter is the number of characters of
  a matched occurrence that are still to be skipped.\<close>

fun replace_from :: "string \<Rightarrow> string \<Rightarrow> nat \<Rightarrow> string \<Rightarrow> string" where
  "replace_from old new k [] = []"
| "replace_from old new (Suc k) (c # cs) = replace_from old new k cs"
| "replace_from old new 0 (c # cs) =
     (if prefix old (c # cs) then new @ replace_from old new (length old - 1) cs
      else c # replace_from old new 0 cs)"

definition str_replace :: "string \<Rightarrow> string \<Rightarrow> string \<Rightarrow> string" where
  "str_replace old new s = replace_from old new 0 s"

text \<open>\<^verbatim>\<open>template.format(name=value, ...)\<close> with keyword arguments only. Literal text is
  copied; \<^verbatim>\<open>{name}\<close> is replaced by the argument of that name (\<^verbatim>\<open>KeyError\<close> when
  there is none, \<^verbatim>\<open>IndexError\<close> for the empty name, which asks for a positional
  argument); doubled braces stand for one brace; a single closing brace and an unclosed
  field are a \<^verbatim>\<open>ValueError\<close>. The field names of the script are plain names; conversions
  and format specifications inside a field do not occur in it and are not modelled.\<close>

datatype fmt_state = Literal | Field string | Closing

fun format_from :: "fmt_state \<Rightarrow> string \<Rightarrow> (string \<times> string) list \<Rightarrow> error + string" where
  "format_from Literal [] kwargs = Inr []"
| "format_from (Field name) [] kwargs = Inl ValueError"
| "format_from Closing [] kwargs = Inl ValueError"
| "format_from Literal (c # cs) kwargs =
     (if c = CHR ''{'' then format_from (Field []) cs kwargs
      else if c = CHR ''}'' then format_from Closing cs kwargs
      else (case format_from Literal cs kwargs of Inl e \<Rightarrow> Inl e | Inr rest \<Rightarrow> Inr (c # rest)))"
| "format_from Closing (c # cs) kwargs =
     (if c = CHR ''}''
      then (case format_from Literal cs kwargs of Inl e \<Rightarrow> Inl e | Inr rest \<Rightarrow> Inr (c # rest))
      else Inl ValueError)"
| "format_from (Field name) (c # cs) kwargs =
     (if c = CHR ''}'' then
        (if name = [] then Inl IndexError
         else (case map_of kwargs name of
                 None \<Rightarrow> Inl (KeyError name)
               | Some v \<Rightarrow>
                   (case format_from Literal cs kwargs of
                      Inl e \<Rightarrow> Inl e
                    | Inr rest \<Rightarrow> Inr (v @ rest))))
      else if c = CHR ''{'' then
        (if name = []
         then (case format_from Literal cs kwargs of Inl e \<Rightarrow> Inl e | Inr rest \<Rightarrow> Inr (c # rest))
         else Inl ValueError)
      else format_from (Field (name @ [c])) cs kwargs)"

definition py_format :: "string \<Rightarrow> (string \<times> string) list \<Rightarrow> error + string" where
  "py_format template kwargs = format_from Literal template kwargs"

text \<open>\<^verbatim>\<open>s.capitalize()\<close> on ASCII text: the first character in upper case, the others in
  lower case.\<close>

definition ascii_upper :: "char \<Rightarrow> char" where
  "ascii_upper c =
     (if (97::nat) \<le> of_char c \<and> of_char c \<le> (122::nat) then char_of (of_char c - (32::nat)) else c)"

definition ascii_lower :: "char \<Rightarrow> char" where
  "ascii_lower c =
     (if (65::nat) \<le> of_char c \<and> of_char c \<le> (90::nat) then char_of (of_char c + (32::nat)) else c)"

fun capitalize :: "string \<Rightarrow> string" where
  "capitalize [] = []"
| "capitalize (c # cs) = ascii_upper c # map ascii_lower cs"

subsection \<open>Filling an output template\<close>

text \<open>The generators with old-style outputs fill an output template by
  \<^verbatim>\<open>json.dumps\<close>, a chain of \<^verbatim>\<open>str.replace\<close> calls on the JSON text, and
  \<^verbatim>\<open>json.loads\<close>. Every placeholder \<^verbatim>\<open>{name}\<close> stands inside a string of the
  template, and the vocabulary holds no quote, backslash, brace, control or non-ASCII
  character (lemma \<open>vocabulary_plain\<close> below). Under these conditions a replacement
  neither touches the JSON punctuation nor produces text that JSON would read differently,
  so the round trip through JSON text is the same chain of replacements applied to every
  string of the template, keys included. That is how the model does it: \<open>replace_all\<close> is
  the chain on one string, \<open>fill\<close> applies it throughout a value.\<close>

fun replace_all :: "(string \<times> string) list \<Rightarrow> string \<Rightarrow> string" where
  "replace_all [] s = s"
| "replace_all ((old, new) # reps) s = replace_all reps (str_replace old new s)"

fun fill :: "(string \<times> string) list \<Rightarrow> pyval \<Rightarrow> pyval" where
  "fill reps PNone = PNone"
| "fill reps (PBool b) = PBool b"
| "fill reps (PInt i) = PInt i"
| "fill reps (PStr s) = PStr (replace_all reps s)"
| "fill reps (PList vs) = PList (map (fill reps) vs)"
| "fill reps (PDict kvs) = PDict (map (\<lambda>kv. (replace_all reps (fst kv), fill reps (snd kv))) kvs)"

subsection \<open>Computations that draw\<close>

text \<open>A step of a generator takes the state of the random source and either raises or
  returns a value and the state it leaves. \<open>gen_bind\<close> runs one step after another,
  \<open>gen_lift\<close> is a step that does not draw, \<open>gen_repeat\<close> is the loop
  \<^verbatim>\<open>for _ in range(n): ... examples.append(...)\<close>, and \<open>gen_append\<close> runs two loops
  that append to the same list.\<close>

type_synonym 'a gen = "rng \<Rightarrow> error + ('a \<times> rng)"

definition gen_return :: "'a \<Rightarrow> 'a gen" where
  "gen_return x g = Inr (x, g)"

definition gen_bind :: "'a gen \<Rightarrow> ('a \<Rightarrow> 'b gen) \<Rightarrow> 'b gen" where
  "gen_bind m f g = (case m g of Inl e \<Rightarrow> Inl e | Inr (x, g') \<Rightarrow> f x g')"

definition gen_lift :: "error + 'a \<Rightarrow> 'a gen" where
  "gen_lift r g = (case r of Inl e \<Rightarrow> Inl e | Inr x \<Rightarrow> Inr (x, g))"

fun gen_repeat :: "nat \<Rightarrow> 'a gen \<Rightarrow> 'a list gen" where
  "gen_repeat 0 body g = Inr ([], g)"
| "gen_repeat (Suc n) body g =
     (case body g of
        Inl e \<Rightarrow> Inl e
      | Inr (x, g') \<Rightarrow>
          (case gen_repeat n body g' of Inl e \<Rightarrow> Inl e | Inr (xs, g'') \<Rightarrow> Inr (x # xs, g'')))"

definition gen_append :: "'a list gen \<Rightarrow> 'a list gen \<Rightarrow> 'a list gen" where
  "gen_append m1 m2 = gen_bind m1 (\<lambda>xs. gen_bind m2 (\<lambda>ys. gen_return (xs @ ys)))"

text \<open>An example is the dictionary \<^verbatim>\<open>{"input": ..., "output": ...}\<close>.\<close>

definition example :: "string \<Rightarrow> pyval \<Rightarrow> pyval" where
  "example input_text output = PDict [(''input'', PStr input_text), (''output'', output)]"

section \<open>The vocabularies\<close>

text \<open>The module-level lists of the script, as they are written there.\<close>

definition TOPICS :: "string list" where
  "TOPICS =
     [''marketing strategy'', ''brand positioning'', ''customer acquisition'',
      ''retention metrics'', ''social media campaign'', ''content marketing'',
      ''SEO optimization'', ''email automation'', ''lead generation'', ''conversion funnel'',
      ''A/B testing'', ''user personas'', ''competitive analysis'', ''market research'',
      ''pricing strategy'', ''product launch'', ''feature architecture'', ''API design'',
      ''database schema'', ''caching strategy'', ''performance optimization'',
      ''code refactoring'', ''technical debt'', ''microservices'', ''authentication flow'',
      ''authorization patterns'', ''error handling'', ''logging strategy'', ''CI/CD pipeline'',
      ''deployment automation'', ''monitoring setup'', ''incident response'',
      ''mobile optimization'', ''offline support'', ''data migration'', ''versioning strategy'',
      ''user onboarding'', ''navigation patterns'', ''color scheme'', ''typography system'',
      ''component library'', ''design tokens'', ''accessibility improvements'', ''mobile UX'',
      ''dark mode implementation'', ''animation principles'', ''icon system'', ''layout grid'',
      ''form validation UX'', ''error messaging'', ''loading states'', ''empty states'',
      ''growth hacking'', ''viral loops'', ''referral program'', ''partnership strategy'',
      ''investor pitch'', ''fundraising deck'', ''unit economics'', ''market expansion'',
      ''international launch'', ''localization'', ''pricing tiers'', ''freemium model'',
      ''learning roadmap'', ''skill development'', ''reading list'', ''networking strategy'',
      ''time management'', ''productivity system'', ''habit formation'', ''goal setting'',
      ''morning routine'', ''evening routine'', ''meditation practice'', ''exercise plan'',
      ''blog post series'', ''newsletter topics'', ''podcast episodes'', ''video content'',
      ''case studies'', ''whitepapers'', ''documentation'', ''help articles'', ''social posts'',
      ''ad copy'', ''landing pages'', ''email sequences'', ''user research'', ''market trends'',
      ''competitor analysis'', ''technology evaluation'', ''framework comparison'',
      ''best practices'', ''industry benchmarks'', ''case study analysis'']"

definition TASKS :: "string list" where
  "TASKS =
     [''call mom'', ''call dad'', ''call Sarah'', ''call John'', ''call the dentist'',
      ''email the team'', ''email investors'', ''email marketing'', ''email support'',
      ''text Alex'', ''text the group'', ''message the client'', ''follow up with leads'',
      ''schedule meeting with product'', ''book 1:1 with manager'', ''set up call with design'',
      ''finish the report'', ''review the PR'', ''update documentation'', ''fix the bug'',
      ''write tests'', ''deploy to staging'', ''merge the feature branch'',
      ''update dependencies'', ''create the presentation'', ''prepare for standup'',
      ''update the roadmap'', ''write specs'', ''review analytics'', ''check metrics'',
      ''update dashboards'', ''run experiments'', ''interview candidates'',
      ''review applications'', ''prepare interview questions'', ''buy groceries'',
      ''pick up laundry'', ''return package'', ''pay bills'', ''renew subscription'',
      ''cancel gym membership'', ''book dentist'', ''schedule haircut'', ''water plants'',
      ''clean apartment'', ''do laundry'', ''cook dinner'', ''exercise'', ''meditate'',
      ''read for 30 minutes'', ''practice Spanish'', ''take vitamins'', ''drink water'',
      ''go for a walk'', ''stretch'', ''order supplies'', ''buy birthday gift'',
      ''get flowers'', ''pick up prescription'', ''return shoes'', ''exchange jacket'',
      ''order office supplies'', ''buy charger'', ''drop off mail'', ''go to bank'',
      ''visit post office'', ''get car serviced'', ''renew license'', ''update passport'',
      ''file taxes'', ''submit expense report'']"

definition PROJECTS :: "string list" where
  "PROJECTS =
     [''marketing'', ''product'', ''engineering'', ''design'', ''sales'', ''operations'',
      ''personal'', ''health'', ''finance'', ''learning'', ''side project'', ''home'',
      ''q1 goals'', ''q2 planning'', ''annual review'', ''strategic initiative'',
      ''app redesign'', ''backend migration'', ''mobile app'', ''web platform'',
      ''customer success'', ''support'', ''content'', ''growth'', ''partnerships'']"

definition PERSON_NAMES :: "string list" where
  "PERSON_NAMES =
     [''Michael'', ''Sarah'', ''John'', ''Emily'', ''David'', ''Lisa'', ''James'', ''Jennifer'',
      ''Robert'', ''Jessica'', ''William'', ''Ashley'', ''Christopher'', ''Amanda'', ''Daniel'',
      ''Nicole'', ''Matthew'', ''Stephanie'', ''Anthony'', ''Melissa'', ''Mark'', ''Michelle'',
      ''Andrew'', ''Elizabeth'', ''Joshua'', ''Kimberly'', ''Steven'', ''Rebecca'', ''Kevin'',
      ''Laura'', ''Brian'', ''Rachel'', ''Alex'', ''Chris'', ''Sam'', ''Jordan'', ''Taylor'',
      ''Morgan'', ''Casey'', ''Jamie'', ''Cameron'', ''Drew'', ''Pat'', ''Quinn'', ''Riley'',
      ''Dr. Smith'', ''Dr. Johnson'', ''Professor Lee'', ''Coach Williams'']"

definition COMPANY_NAMES :: "string list" where
  "COMPANY_NAMES =
     [''Acme'', ''TechCorp'', ''GlobalSoft'', ''Innovate Inc'', ''StartupX'', ''ClientCo'',
      ''PartnerGroup'', ''VentureOne'', ''CloudNine'', ''DataDriven'', ''NextGen'',
      ''BlueChip'', ''GreenLeaf'', ''RedRock'', ''SilverLine'', ''GoldStar'']"

definition TIMES :: "string list" where
  "TIMES =
     [''9am'', ''10am'', ''11am'', ''12pm'', ''1pm'', ''2pm'', ''3pm'', ''4pm'', ''5pm'',
      ''6pm'', ''9'', ''10'', ''11'', ''12'', ''1'', ''2'', ''3'', ''4'', ''5'', ''6'',
      ''9:30'', ''10:30'', ''11:30'', ''12:30'', ''1:30'', ''2:30'', ''3:30'', ''4:30'',
      ''morning'', ''afternoon'', ''evening'', ''noon'', ''end of day'', ''close of business'']"

definition RELATIVE_TIMES :: "string list" where
  "RELATIVE_TIMES =
     [''tomorrow'', ''next week'', ''next Monday'', ''next Tuesday'', ''next Wednesday'',
      ''this Friday'', ''this weekend'', ''in an hour'', ''in 2 hours'', ''in 30 minutes'',
      ''later today'', ''tonight'', ''this evening'', ''next month'', ''end of week'']"

definition DURATIONS :: "(string \<times> int) list" where
  "DURATIONS =
     [(''30 minutes'', 30), (''1 hour'', 60), (''1.5 hours'', 90), (''2 hours'', 120),
      (''45 minutes'', 45), (''15 minutes'', 15), (''3 hours'', 180), (''half hour'', 30),
      (''an hour'', 60), (''couple hours'', 120)]"

definition PRIORITIES :: "string list" where
  "PRIORITIES =
     [''low'', ''medium'', ''high'']"

definition LEVEL_QUERY_TYPES :: "(string \<times> string list) list" where
  "LEVEL_QUERY_TYPES =
     [(''levelStatus'', [(''What'' @ [CHR 0x27] @ ''s my level''), ''What level am I'', ''Show my level'', ''Level status'', ''My current level'']),
      (''xpToday'', [''How much XP today'', ''XP earned today'', (''Today'' @ [CHR 0x27] @ ''s XP''), ''Show XP today'', ''What XP did I get'']),
      (''xpBreakdown'', [''XP breakdown'', ''Show XP by dimension'', ''Break down my XP'', ''XP details'']),
      (''dimensionStatus'', [(''How'' @ [CHR 0x27] @ ''s my cognitive dimension''), ''Show creative status'', (''What'' @ [CHR 0x27] @ ''s my physiological progress''), ''Knowledge dimension status'']),
      (''streakStatus'', [(''What'' @ [CHR 0x27] @ ''s my streak''), ''How long is my streak'', ''Current streak'', ''Show my streak'', ''Am I on a streak'']),
      (''allStreaks'', [''Show all streaks'', ''What streaks do I have'', ''All my streaks'', ''Streak summary'']),
      (''badgesEarned'', [''What badges have I earned'', ''Show my badges'', ''My achievements'', ''Badges unlocked'', ''Show achievements'']),
      (''badgeProgress'', [''Badge progress'', ''How close am I to badges'', ''Which badges am I close to'', ''Upcoming badges'']),
      (''activeQuests'', [''What quests are active'', ''Show my quests'', ''Active quests'', ''Current quests'']),
      (''questProgress'', [''Quest progress'', ''How are my quests going'', ''Quest status'']),
      (''readinessScore'', [(''What'' @ [CHR 0x27] @ ''s my readiness''), ''Am I ready to work'', ''Readiness score'', ''How ready am I'']),
      (''hrvStatus'', [(''What'' @ [CHR 0x27] @ ''s my HRV''), ''Heart rate variability'', ''HRV status'', (''How'' @ [CHR 0x27] @ ''s my HRV'')]),
      (''sleepScore'', [''How did I sleep'', ''Sleep score'', ''Sleep quality'', ''How was my sleep'', (''Last night'' @ [CHR 0x27] @ ''s sleep'')]),
      (''todayHealth'', [(''Today'' @ [CHR 0x27] @ ''s health''), ''Health metrics'', ''How healthy am I today'', ''Vitals today'']),
      (''dailySummary'', [''Daily summary'', ''How was my day'', (''Today'' @ [CHR 0x27] @ ''s summary''), ''Summarize today'']),
      (''weeklySummary'', [''Weekly summary'', ''How was my week'', (''This week'' @ [CHR 0x27] @ ''s summary''), ''Week review'']),
      (''contentPerformance'', [(''How'' @ [CHR 0x27] @ ''s my content doing''), ''Content performance'', ''Content stats'', ''Post performance'']),
      (''totalReach'', [(''What'' @ [CHR 0x27] @ ''s my total reach''), ''How many people have I reached'', ''Reach metrics'', ''Content reach'']),
      (''viralCount'', [''How many viral posts'', ''Viral content'', ''Which posts went viral'', ''Viral count'']),
      (''pipelineStatus'', [''Content pipeline status'', (''What'' @ [CHR 0x27] @ ''s in the pipeline''), ''Pipeline review'']),
      (''creativeDimension'', [''Creative dimension status'', (''How'' @ [CHR 0x27] @ ''s my creative side''), ''Creative progress''])]"

definition DIMENSIONS :: "string list" where
  "DIMENSIONS =
     [''cognitive'', ''creative'', ''physiological'', ''behavioral'', ''knowledge'',
      ''reflection'']"

definition DEEP_WORK_DURATIONS :: "(int \<times> string list) list" where
  "DEEP_WORK_DURATIONS =
     [(30, [''30 minutes'', ''half hour'', ''half an hour'']), (45, [''45 minutes'']),
      (60, [''1 hour'', ''an hour'', ''one hour'', ''60 minutes'']),
      (90, [''90 minutes'', ''hour and a half'', ''1.5 hours'']),
      (120, [''2 hours'', ''two hours'', ''couple hours'']),
      (180, [''3 hours'', ''three hours''])]"

definition JOURNAL_ENTRY_TYPES :: "(string \<times> string list) list" where
  "JOURNAL_ENTRY_TYPES =
     [(''gratitude'', [(''I'' @ [CHR 0x27] @ ''m grateful for {content}''), ''Grateful for {content}'', ''Thankful for {content}'', ''I appreciate {content}'', ''Gratitude: {content}'']),
      (''mood'', [(''I'' @ [CHR 0x27] @ ''m feeling {feeling}''), ''Feeling {feeling}'', ''My mood is {feeling}'', ''I feel {feeling} today'']),
      (''learning'', [''I learned that {content}'', ''Today I learned {content}'', ''Learned: {content}'', ''TIL {content}'', ''I discovered that {content}'']),
      (''reflection'', [''Reflecting on {content}'', (''I'' @ [CHR 0x27] @ ''ve been thinking about {content}''), ''Thought: {content}'', ''Reflection: {content}'']),
      (''goal'', [''My goal is to {content}'', ''I want to {content}'', ''Goal: {content}'', (''I'' @ [CHR 0x27] @ ''m aiming to {content}'')]),
      (''challenge'', [(''I'' @ [CHR 0x27] @ ''m struggling with {content}''), ''Challenge: {content}'', ''My challenge is {content}'', (''I'' @ [CHR 0x27] @ ''m working through {content}'')]),
      (''celebration'', [''I achieved {content}'', ''Celebrating {content}'', ''Win: {content}'', (''I'' @ [CHR 0x27] @ ''m proud of {content}''), ''Victory: {content}'']),
      (''intention'', [''My intention today is {content}'', ''I intend to {content}'', ''Today I will {content}'', ''Setting intention: {content}'']),
      (''freeform'', [''Journal: {content}'', ''Note to self: {content}'', ''Dear diary: {content}'', ''{content}''])]"

definition GRATITUDE_CONTENT :: "string list" where
  "GRATITUDE_CONTENT =
     [''my team'', ''my health'', ''my family'', ''good sleep'', ''productive day'',
      ''the sunshine'', ''my morning coffee'', ''finishing the project'',
      ''supportive friends'', ''learning something new'', ''a good workout'',
      ''peaceful morning'', ''nice weather'']"

definition FEELINGS :: "string list" where
  "FEELINGS =
     [''great'', ''amazing'', ''tired'', ''energized'', ''focused'', ''stressed'', ''calm'',
      ''happy'', ''productive'', ''creative'', ''motivated'', ''relaxed'', ''anxious'',
      ''excited'', ''peaceful'', ''content'', ''overwhelmed'', ''optimistic'']"

definition LEARNING_CONTENT :: "string list" where
  "LEARNING_CONTENT =
     [''how to optimize database queries'', ''a new design pattern'',
      ''the importance of rest'', ''better communication skills'',
      ''time management techniques'', ''a new Swift feature'',
      ''how to handle errors gracefully'', ''the value of deep work'', ''how to prioritize'']"

definition GENERAL_CONTENT :: "string list" where
  "GENERAL_CONTENT =
     [''my work-life balance'', ''improving my productivity'', ''building better habits'',
      ''being more present'', ''focusing on what matters'', ''taking care of my health'',
      ''learning new skills'', ''connecting with others'', ''simplifying my life'']"

definition WORKOUT_TYPES :: "(string \<times> string list) list" where
  "WORKOUT_TYPES =
     [(''run'', [''run'', ''running'', ''went for a run'', ''jogged'', ''jogging'']),
      (''walk'', [''walk'', ''walked'', ''went for a walk'', ''walking'']),
      (''swim'', [''swim'', ''swimming'', ''swam'', ''went swimming'']),
      (''cycle'', [''bike'', ''cycling'', ''biked'', ''went cycling'', ''rode my bike'']),
      (''strength'', [''lifted weights'', ''strength training'', ''weight training'', ''gym workout'', ''lifted'']),
      (''yoga'', [''yoga'', ''did yoga'', ''yoga session'']),
      (''hiit'', [''HIIT'', ''hiit workout'', ''interval training'', ''tabata''])]"

definition EXERCISES :: "string list" where
  "EXERCISES =
     [''push ups'', ''pull ups'', ''squats'', ''deadlifts'', ''bench press'', ''lunges'',
      ''planks'', ''burpees'', ''jumping jacks'', ''sit ups'']"

definition NAVIGATION_DESTINATIONS :: "(string \<times> string list) list" where
  "NAVIGATION_DESTINATIONS =
     [(''home'', [''go home'', ''open home'', ''show home'', ''home screen'']),
      (''today'', [''go to today'', ''open today'', ''show today'', ''today view'']),
      (''projects'', [''go to projects'', ''open projects'', ''show projects'', ''my projects'']),
      (''ideas'', [''go to ideas'', ''open ideas'', ''show ideas'', ''idea list'']),
      (''tasks'', [''go to tasks'', ''open tasks'', ''show tasks'', ''task list'', ''my tasks'']),
      (''schedule'', [''go to schedule'', ''open schedule'', ''show schedule'', ''my calendar'', ''calendar'']),
      (''research'', [''go to research'', ''open research'', ''show research'']),
      (''focus'', [''go to focus'', ''open focus mode'', ''focus screen'']),
      (''settings'', [''go to settings'', ''open settings'', ''settings'']),
      (''sanctuary'', [''go to sanctuary'', ''open sanctuary'', ''sanctuary view'', ''show sanctuary'']),
      (''dashboard'', [''go to dashboard'', ''open dashboard'', ''show dashboard'', ''main dashboard'']),
      (''plannerum'', [''go to plannerum'', ''open plannerum'', ''show plannerum'', ''planner'', ''plan'', ''planning'', ''open planner'', ''go to planner'']),
      (''thinkspace'', [''go to thinkspace'', ''open thinkspace'', ''show thinkspace'', ''canvas'', ''think'', ''open canvas'', ''go to canvas'', ''thinking space'']),
      (''inbox'', [''go to inbox'', ''open inbox'', ''show inbox'', ''my inbox'', ''inbox view'']),
      (''notes'', [''go to notes'', ''open notes'', ''show notes'', ''my notes'', ''notes view''])]"

section \<open>The templates\<close>

text \<open>The template lists local to the generator functions. A list of a generator is
  named after the function (\<^verbatim>\<open>idea_templates\<close> of
  \<^verbatim>\<open>generate_simple_creation_examples\<close> is \<open>simple_creation_idea_templates\<close>), since
  several functions use the same local names.\<close>

definition simple_creation_idea_templates :: "(string \<times> pyval) list" where
  "simple_creation_idea_templates =
     [(''Create idea about {topic}'',
       PDict [(''action'', PStr ''create''), (''type'', PStr ''idea''), (''title'', PStr ''{topic}'')]),
      (''New idea about {topic}'',
       PDict [(''action'', PStr ''create''), (''type'', PStr ''idea''), (''title'', PStr ''{topic}'')]),
      (''Add idea for {topic}'',
       PDict [(''action'', PStr ''create''), (''type'', PStr ''idea''), (''title'', PStr ''{topic}'')]),
      (''Jot down idea about {topic}'',
       PDict [(''action'', PStr ''create''), (''type'', PStr ''idea''), (''title'', PStr ''{topic}'')]),
      (''Note about {topic}'',
       PDict [(''action'', PStr ''create''), (''type'', PStr ''idea''), (''title'', PStr ''{topic}'')]),
      (''I have an idea about {topic}'',
       PDict [(''action'', PStr ''create''), (''type'', PStr ''idea''), (''title'', PStr ''{topic}'')]),
      (''Thought about {topic}'',
       PDict [(''action'', PStr ''create''), (''type'', PStr ''idea''), (''title'', PStr ''{topic}'')]),
      (''Add thought on {topic}'',
       PDict [(''action'', PStr ''create''), (''type'', PStr ''idea''), (''title'', PStr ''{topic}'')]),
      (''Capture idea for {topic}'',
       PDict [(''action'', PStr ''create''), (''type'', PStr ''idea''), (''title'', PStr ''{topic}'')]),
      (''Quick idea {topic}'',
       PDict [(''action'', PStr ''create''), (''type'', PStr ''idea''), (''title'', PStr ''{topic}'')]),
      (''Idea {topic}'',
       PDict [(''action'', PStr ''create''), (''type'', PStr ''idea''), (''title'', PStr ''{topic}'')]),
      (''{topic} idea'',
       PDict [(''action'', PStr ''create''), (''type'', PStr ''idea''), (''title'', PStr ''{topic}'')]),
      (''Brain dump about {topic}'',
       PDict [(''action'', PStr ''create''), (''type'', PStr ''idea''), (''title'', PStr ''{topic}'')]),
      (''Let me note down {topic}'',
       PDict [(''action'', PStr ''create''), (''type'', PStr ''idea''), (''title'', PStr ''{topic}'')]),
      (''Save idea about {topic}'',
       PDict [(''action'', PStr ''create''), (''type'', PStr ''idea''), (''title'', PStr ''{topic}'')])]"

definition simple_creation_task_templates :: "(string \<times> pyval) list" where
  "simple_creation_task_templates =
     [(''Create task {task}'',
       PDict [(''action'', PStr ''create''), (''type'', PStr ''task''), (''title'', PStr ''{task}'')]),
      (''New task {task}'',
       PDict [(''action'', PStr ''create''), (''type'', PStr ''task''), (''title'', PStr ''{task}'')]),
      (''Add task {task}'',
       PDict [(''action'', PStr ''create''), (''type'', PStr ''task''), (''title'', PStr ''{task}'')]),
      (''I need to {task}'',
       PDict [(''action'', PStr ''create''), (''type'', PStr ''task''), (''title'', PStr ''{task}'')]),
      (''Remind me to {task}'',
       PDict [(''action'', PStr ''create''), (''type'', PStr ''task''), (''title'', PStr ''{task}'')]),
      ((''Don'' @ [CHR 0x27] @ ''t let me forget to {task}''),
       PDict [(''action'', PStr ''create''), (''type'', PStr ''task''), (''title'', PStr ''{task}'')]),
      (''Add to my list {task}'',
       PDict [(''action'', PStr ''create''), (''type'', PStr ''task''), (''title'', PStr ''{task}'')]),
      (''Todo {task}'',
       PDict [(''action'', PStr ''create''), (''type'', PStr ''task''), (''title'', PStr ''{task}'')]),
      (''To do {task}'',
       PDict [(''action'', PStr ''create''), (''type'', PStr ''task''), (''title'', PStr ''{task}'')]),
      (''{task}'',
       PDict [(''action'', PStr ''create''), (''type'', PStr ''task''), (''title'', PStr ''{task}'')]),
      (''Make sure I {task}'',
       PDict [(''action'', PStr ''create''), (''type'', PStr ''task''), (''title'', PStr ''{task}'')]),
      (''Put on my list {task}'',
       PDict [(''action'', PStr ''create''), (''type'', PStr ''task''), (''title'', PStr ''{task}'')]),
      (''Add {task} to tasks'',
       PDict [(''action'', PStr ''create''), (''type'', PStr ''task''), (''title'', PStr ''{task}'')]),
      (''Task to {task}'',
       PDict [(''action'', PStr ''create''), (''type'', PStr ''task''), (''title'', PStr ''{task}'')]),
      (''Need to {task}'',
       PDict [(''action'', PStr ''create''), (''type'', PStr ''task''), (''title'', PStr ''{task}'')])]"

definition simple_creation_project_templates :: "(string \<times> pyval) list" where
  "simple_creation_project_templates =
     [(''Create project called {project}'',
       PDict [(''action'', PStr ''create''), (''type'', PStr ''project''), (''title'', PStr ''{project}'')]),
      (''New project {project}'',
       PDict [(''action'', PStr ''create''), (''type'', PStr ''project''), (''title'', PStr ''{project}'')]),
      (''Start a project for {project}'',
       PDict [(''action'', PStr ''create''), (''type'', PStr ''project''), (''title'', PStr ''{project}'')]),
      (''Add project {project}'',
       PDict [(''action'', PStr ''create''), (''type'', PStr ''project''), (''title'', PStr ''{project}'')])]"

definition simple_creation_research_templates :: "(string \<times> pyval) list" where
  "simple_creation_research_templates =
     [(''Save this article about {topic}'',
       PDict [(''action'', PStr ''create''), (''type'', PStr ''research''), (''title'', PStr ''{topic}'')]),
      (''Add to research {topic}'',
       PDict [(''action'', PStr ''create''), (''type'', PStr ''research''), (''title'', PStr ''{topic}'')]),
      (''Research about {topic}'',
       PDict [(''action'', PStr ''create''), (''type'', PStr ''research''), (''title'', PStr ''{topic}'')]),
      (''Look into {topic}'',
       PDict [(''action'', PStr ''create''), (''type'', PStr ''research''), (''title'', PStr ''{topic}'')]),
      (''Investigate {topic}'',
       PDict [(''action'', PStr ''create''), (''type'', PStr ''research''), (''title'', PStr ''{topic}'')])]"

definition simple_creation_note_templates :: "(string \<times> pyval) list" where
  "simple_creation_note_templates =
     [(''Create note about {topic}'',
       PDict [(''action'', PStr ''create''), (''type'', PStr ''note''), (''title'', PStr ''{topic}'')]),
      (''New note {topic}'',
       PDict [(''action'', PStr ''create''), (''type'', PStr ''note''), (''title'', PStr ''{topic}'')]),
      (''Add note about {topic}'',
       PDict [(''action'', PStr ''create''), (''type'', PStr ''note''), (''title'', PStr ''{topic}'')]),
      (''Quick note {topic}'',
       PDict [(''action'', PStr ''create''), (''type'', PStr ''note''), (''title'', PStr ''{topic}'')]),
      (''Note {topic}'',
       PDict [(''action'', PStr ''create''), (''type'', PStr ''note''), (''title'', PStr ''{topic}'')]),
      (''Floating note {topic}'',
       PDict [(''action'', PStr ''create''), (''type'', PStr ''note''), (''title'', PStr ''{topic}'')]),
      (''Add floating note about {topic}'',
       PDict [(''action'', PStr ''create''), (''type'', PStr ''note''), (''title'', PStr ''{topic}'')]),
      (''Drop a note about {topic}'',
       PDict [(''action'', PStr ''create''), (''type'', PStr ''note''), (''title'', PStr ''{topic}'')])]"

definition simple_creation_thinkspace_templates :: "(string \<times> pyval) list" where
  "simple_creation_thinkspace_templates =
     [(''Create thinkspace for {topic}'',
       PDict [(''action'', PStr ''create''), (''type'', PStr ''thinkspace''), (''title'', PStr ''{topic}'')]),
      (''New thinkspace {topic}'',
       PDict [(''action'', PStr ''create''), (''type'', PStr ''thinkspace''), (''title'', PStr ''{topic}'')]),
      (''Add thinkspace about {topic}'',
       PDict [(''action'', PStr ''create''), (''type'', PStr ''thinkspace''), (''title'', PStr ''{topic}'')]),
      (''Create canvas for {topic}'',
       PDict [(''action'', PStr ''create''), (''type'', PStr ''thinkspace''), (''title'', PStr ''{topic}'')]),
      (''New canvas {topic}'',
       PDict [(''action'', PStr ''create''), (''type'', PStr ''thinkspace''), (''title'', PStr ''{topic}'')]),
      (''Start a thinkspace for {topic}'',
       PDict [(''action'', PStr ''create''), (''type'', PStr ''thinkspace''), (''title'', PStr ''{topic}'')]),
      (''Make a thinking space for {topic}'',
       PDict [(''action'', PStr ''create''), (''type'', PStr ''thinkspace''), (''title'', PStr ''{topic}'')])]"

definition simple_creation_connection_templates :: "(string \<times> pyval) list" where
  "simple_creation_connection_templates =
     [(''Create connection about {topic}'',
       PDict [(''action'', PStr ''create''), (''type'', PStr ''connection''), (''title'', PStr ''{topic}'')]),
      (''New connection {topic}'',
       PDict [(''action'', PStr ''create''), (''type'', PStr ''connection''), (''title'', PStr ''{topic}'')]),
      (''Add connection for {topic}'',
       PDict [(''action'', PStr ''create''), (''type'', PStr ''connection''), (''title'', PStr ''{topic}'')]),
      (''Mental model for {topic}'',
       PDict [(''action'', PStr ''create''), (''type'', PStr ''connection''), (''title'', PStr ''{topic}'')]),
      (''Create mental model about {topic}'',
       PDict [(''action'', PStr ''create''), (''type'', PStr ''connection''), (''title'', PStr ''{topic}'')]),
      (''Link {topic}'',
       PDict [(''action'', PStr ''create''), (''type'', PStr ''connection''), (''title'', PStr ''{topic}'')]),
      (''Connect {topic}'',
       PDict [(''action'', PStr ''create''), (''type'', PStr ''connection''), (''title'', PStr ''{topic}'')])]"

definition simple_creation_idea_priority_templates :: "(string \<times> pyval) list" where
  "simple_creation_idea_priority_templates =
     [(''Create {priority} priority idea about {topic}'',
       PDict [(''action'', PStr ''create''), (''type'', PStr ''idea''), (''title'', PStr ''{topic}''), (''metadata'', PDict [(''priority'', PStr ''{priority}'')])]),
      (''High priority idea about {topic}'',
       PDict [(''action'', PStr ''create''), (''type'', PStr ''idea''), (''title'', PStr ''{topic}''), (''metadata'', PDict [(''priority'', PStr ''high'')])]),
      (''Important idea about {topic}'',
       PDict [(''action'', PStr ''create''), (''type'', PStr ''idea''), (''title'', PStr ''{topic}''), (''metadata'', PDict [(''priority'', PStr ''high'')])])]"

definition simple_creation_task_priority_templates :: "(string \<times> pyval) list" where
  "simple_creation_task_priority_templates =
     [(''Urgent task {task}'',
       PDict [(''action'', PStr ''create''), (''type'', PStr ''task''), (''title'', PStr ''{task}''), (''metadata'', PDict [(''priority'', PStr ''high'')])]),
      (''High priority {task}'',
       PDict [(''action'', PStr ''create''), (''type'', PStr ''task''), (''title'', PStr ''{task}''), (''metadata'', PDict [(''priority'', PStr ''high'')])]),
      (''Low priority {task}'',
       PDict [(''action'', PStr ''create''), (''type'', PStr ''task''), (''title'', PStr ''{task}''), (''metadata'', PDict [(''priority'', PStr ''low'')])]),
      (''Important {task}'',
       PDict [(''action'', PStr ''create''), (''type'', PStr ''task''), (''title'', PStr ''{task}''), (''metadata'', PDict [(''priority'', PStr ''high'')])]),
      (''When I get to it {task}'',
       PDict [(''action'', PStr ''create''), (''type'', PStr ''task''), (''title'', PStr ''{task}''), (''metadata'', PDict [(''priority'', PStr ''low'')])])]"

definition project_specific_idea_for_project_templates :: "(string \<times> pyval) list" where
  "project_specific_idea_for_project_templates =
     [(''Idea for {project_ref} {topic}'',
       PDict [(''action'', PStr ''create''), (''type'', PStr ''idea''), (''title'', PStr ''{topic}''), (''links'', PList [PDict [(''type'', PStr ''project''), (''query'', PStr ''{project_ref}'')]])]),
      (''Idea for {project_ref} about {topic}'',
       PDict [(''action'', PStr ''create''), (''type'', PStr ''idea''), (''title'', PStr ''{topic}''), (''links'', PList [PDict [(''type'', PStr ''project''), (''query'', PStr ''{project_ref}'')]])]),
      (''Idea for {project_ref}: {topic}'',
       PDict [(''action'', PStr ''create''), (''type'', PStr ''idea''), (''title'', PStr ''{topic}''), (''links'', PList [PDict [(''type'', PStr ''project''), (''query'', PStr ''{project_ref}'')]])]),
      (''New idea for {project_ref} {topic}'',
       PDict [(''action'', PStr ''create''), (''type'', PStr ''idea''), (''title'', PStr ''{topic}''), (''links'', PList [PDict [(''type'', PStr ''project''), (''query'', PStr ''{project_ref}'')]])]),
      (''New idea for {project_ref} about {topic}'',
       PDict [(''action'', PStr ''create''), (''type'', PStr ''idea''), (''title'', PStr ''{topic}''), (''links'', PList [PDict [(''type'', PStr ''project''), (''query'', PStr ''{project_ref}'')]])]),
      (''I just got this idea for {project_ref} {topic}'',
       PDict [(''action'', PStr ''create''), (''type'', PStr ''idea''), (''title'', PStr ''{topic}''), (''links'', PList [PDict [(''type'', PStr ''project''), (''query'', PStr ''{project_ref}'')]])]),
      (''I just had this idea for {project_ref} {topic}'',
       PDict [(''action'', PStr ''create''), (''type'', PStr ''idea''), (''title'', PStr ''{topic}''), (''links'', PList [PDict [(''type'', PStr ''project''), (''query'', PStr ''{project_ref}'')]])]),
      (''Just got an idea for {project_ref} {topic}'',
       PDict [(''action'', PStr ''create''), (''type'', PStr ''idea''), (''title'', PStr ''{topic}''), (''links'', PList [PDict [(''type'', PStr ''project''), (''query'', PStr ''{project_ref}'')]])]),
      (''Just had a thought for {project_ref} {topic}'',
       PDict [(''action'', PStr ''create''), (''type'', PStr ''idea''), (''title'', PStr ''{topic}''), (''links'', PList [PDict [(''type'', PStr ''project''), (''query'', PStr ''{project_ref}'')]])]),
      (''Thought for {project_ref} {topic}'',
       PDict [(''action'', PStr ''create''), (''type'', PStr ''idea''), (''title'', PStr ''{topic}''), (''links'', PList [PDict [(''type'', PStr ''project''), (''query'', PStr ''{project_ref}'')]])]),
      (''Quick thought for {project_ref} {topic}'',
       PDict [(''action'', PStr ''create''), (''type'', PStr ''idea''), (''title'', PStr ''{topic}''), (''links'', PList [PDict [(''type'', PStr ''project''), (''query'', PStr ''{project_ref}'')]])]),
      (''Note for {project_ref} {topic}'',
       PDict [(''action'', PStr ''create''), (''type'', PStr ''idea''), (''title'', PStr ''{topic}''), (''links'', PList [PDict [(''type'', PStr ''project''), (''query'', PStr ''{project_ref}'')]])]),
      (''Add note for {project_ref} {topic}'',
       PDict [(''action'', PStr ''create''), (''type'', PStr ''idea''), (''title'', PStr ''{topic}''), (''links'', PList [PDict [(''type'', PStr ''project''), (''query'', PStr ''{project_ref}'')]])]),
      (''Add to {project_ref} {topic}'',
       PDict [(''action'', PStr ''create''), (''type'', PStr ''idea''), (''title'', PStr ''{topic}''), (''links'', PList [PDict [(''type'', PStr ''project''), (''query'', PStr ''{project_ref}'')]])]),
      (''Add to {project_ref} inbox {topic}'',
       PDict [(''action'', PStr ''create''), (''type'', PStr ''idea''), (''title'', PStr ''{topic}''), (''links'', PList [PDict [(''type'', PStr ''project''), (''query'', PStr ''{project_ref}'')]])]),
      (''Put in {project_ref} inbox {topic}'',
       PDict [(''action'', PStr ''create''), (''type'', PStr ''idea''), (''title'', PStr ''{topic}''), (''links'', PList [PDict [(''type'', PStr ''project''), (''query'', PStr ''{project_ref}'')]])]),
      (''For {project_ref} {topic}'',
       PDict [(''action'', PStr ''create''), (''type'', PStr ''idea''), (''title'', PStr ''{topic}''), (''links'', PList [PDict [(''type'', PStr ''project''), (''query'', PStr ''{project_ref}'')]])]),
      (''For {project_ref} idea about {topic}'',
       PDict [(''action'', PStr ''create''), (''type'', PStr ''idea''), (''title'', PStr ''{topic}''), (''links'', PList [PDict [(''type'', PStr ''project''), (''query'', PStr ''{project_ref}'')]])]),
      (''Idea for {project_ref} project {topic}'',
       PDict [(''action'', PStr ''create''), (''type'', PStr ''idea''), (''title'', PStr ''{topic}''), (''links'', PList [PDict [(''type'', PStr ''project''), (''query'', PStr ''{project_ref}'')]])]),
      (''Add idea to {project_ref} project {topic}'',
       PDict [(''action'', PStr ''create''), (''type'', PStr ''idea''), (''title'', PStr ''{topic}''), (''links'', PList [PDict [(''type'', PStr ''project''), (''query'', PStr ''{project_ref}'')]])]),
      (''Capture for {project_ref} {topic}'',
       PDict [(''action'', PStr ''create''), (''type'', PStr ''idea''), (''title'', PStr ''{topic}''), (''links'', PList [PDict [(''type'', PStr ''project''), (''query'', PStr ''{project_ref}'')]])]),
      (''Save for {project_ref} {topic}'',
       PDict [(''action'', PStr ''create''), (''type'', PStr ''idea''), (''title'', PStr ''{topic}''), (''links'', PList [PDict [(''type'', PStr ''project''), (''query'', PStr ''{project_ref}'')]])])]"

definition project_specific_task_for_project_templates :: "(string \<times> pyval) list" where
  "project_specific_task_for_project_templates =
     [(''Task for {project_ref} {task}'',
       PDict [(''action'', PStr ''create''), (''type'', PStr ''task''), (''title'', PStr ''{task}''), (''links'', PList [PDict [(''type'', PStr ''project''), (''query'', PStr ''{project_ref}'')]])]),
      (''New task for {project_ref} {task}'',
       PDict [(''action'', PStr ''create''), (''type'', PStr ''task''), (''title'', PStr ''{task}''), (''links'', PList [PDict [(''type'', PStr ''project''), (''query'', PStr ''{project_ref}'')]])]),
      (''Add task for {project_ref} {task}'',
       PDict [(''action'', PStr ''create''), (''type'', PStr ''task''), (''title'', PStr ''{task}''), (''links'', PList [PDict [(''type'', PStr ''project''), (''query'', PStr ''{project_ref}'')]])]),
      (''Add task to {project_ref} {task}'',
       PDict [(''action'', PStr ''create''), (''type'', PStr ''task''), (''title'', PStr ''{task}''), (''links'', PList [PDict [(''type'', PStr ''project''), (''query'', PStr ''{project_ref}'')]])]),
      (''Create task in {project_ref} {task}'',
       PDict [(''action'', PStr ''create''), (''type'', PStr ''task''), (''title'', PStr ''{task}''), (''links'', PList [PDict [(''type'', PStr ''project''), (''query'', PStr ''{project_ref}'')]])]),
      (''For {project_ref} {task}'',
       PDict [(''action'', PStr ''create''), (''type'', PStr ''task''), (''title'', PStr ''{task}''), (''links'', PList [PDict [(''type'', PStr ''project''), (''query'', PStr ''{project_ref}'')]])]),
      (''For {project_ref} task to {task}'',
       PDict [(''action'', PStr ''create''), (''type'', PStr ''task''), (''title'', PStr ''{task}''), (''links'', PList [PDict [(''type'', PStr ''project''), (''query'', PStr ''{project_ref}'')]])]),
      (''I need to {task} for {project_ref}'',
       PDict [(''action'', PStr ''create''), (''type'', PStr ''task''), (''title'', PStr ''{task}''), (''links'', PList [PDict [(''type'', PStr ''project''), (''query'', PStr ''{project_ref}'')]])]),
      (''Need to {task} for {project_ref}'',
       PDict [(''action'', PStr ''create''), (''type'', PStr ''task''), (''title'', PStr ''{task}''), (''links'', PList [PDict [(''type'', PStr ''project''), (''query'', PStr ''{project_ref}'')]])]),
      (''Remind me for {project_ref} to {task}'',
       PDict [(''action'', PStr ''create''), (''type'', PStr ''task''), (''title'', PStr ''{task}''), (''links'', PList [PDict [(''type'', PStr ''project''), (''query'', PStr ''{project_ref}'')]])]),
      (''Task for {project_ref} project {task}'',
       PDict [(''action'', PStr ''create''), (''type'', PStr ''task''), (''title'', PStr ''{task}''), (''links'', PList [PDict [(''type'', PStr ''project''), (''query'', PStr ''{project_ref}'')]])]),
      (''{task} for {project_ref} project'',
       PDict [(''action'', PStr ''create''), (''type'', PStr ''task''), (''title'', PStr ''{task}''), (''links'', PList [PDict [(''type'', PStr ''project''), (''query'', PStr ''{project_ref}'')]])]),
      (''Todo for {project_ref} {task}'',
       PDict [(''action'', PStr ''create''), (''type'', PStr ''task''), (''title'', PStr ''{task}''), (''links'', PList [PDict [(''type'', PStr ''project''), (''query'', PStr ''{project_ref}'')]])]),
      (''To do for {project_ref} {task}'',
       PDict [(''action'', PStr ''create''), (''type'', PStr ''task''), (''title'', PStr ''{task}''), (''links'', PList [PDict [(''type'', PStr ''project''), (''query'', PStr ''{project_ref}'')]])])]"

definition project_specific_research_for_project_templates :: "(string \<times> pyval) list" where
  "project_specific_research_for_project_templates =
     [(''Research for {project_ref} {topic}'',
       PDict [(''action'', PStr ''create''), (''type'', PStr ''research''), (''title'', PStr ''{topic}''), (''links'', PList [PDict [(''type'', PStr ''project''), (''query'', PStr ''{project_ref}'')]])]),
      (''Add research for {project_ref} about {topic}'',
       PDict [(''action'', PStr ''create''), (''type'', PStr ''research''), (''title'', PStr ''{topic}''), (''links'', PList [PDict [(''type'', PStr ''project''), (''query'', PStr ''{project_ref}'')]])]),
      (''Save for {project_ref} research {topic}'',
       PDict [(''action'', PStr ''create''), (''type'', PStr ''research''), (''title'', PStr ''{topic}''), (''links'', PList [PDict [(''type'', PStr ''project''), (''query'', PStr ''{project_ref}'')]])])]"

definition project_specific_ending_with_for_templates :: "(string \<times> pyval) list" where
  "project_specific_ending_with_for_templates =
     [(''{topic} idea for {project_ref}'',
       PDict [(''action'', PStr ''create''), (''type'', PStr ''idea''), (''title'', PStr ''{topic}''), (''links'', PList [PDict [(''type'', PStr ''project''), (''query'', PStr ''{project_ref}'')]])]),
      (''Idea about {topic} for {project_ref}'',
       PDict [(''action'', PStr ''create''), (''type'', PStr ''idea''), (''title'', PStr ''{topic}''), (''links'', PList [PDict [(''type'', PStr ''project''), (''query'', PStr ''{project_ref}'')]])]),
      (''New idea about {topic} for {project_ref}'',
       PDict [(''action'', PStr ''create''), (''type'', PStr ''idea''), (''title'', PStr ''{topic}''), (''links'', PList [PDict [(''type'', PStr ''project''), (''query'', PStr ''{project_ref}'')]])]),
      (''Thought about {topic} for {project_ref}'',
       PDict [(''action'', PStr ''create''), (''type'', PStr ''idea''), (''title'', PStr ''{topic}''), (''links'', PList [PDict [(''type'', PStr ''project''), (''query'', PStr ''{project_ref}'')]])]),
      (''{task} for {project_ref}'',
       PDict [(''action'', PStr ''create''), (''type'', PStr ''task''), (''title'', PStr ''{task}''), (''links'', PList [PDict [(''type'', PStr ''project''), (''query'', PStr ''{project_ref}'')]])]),
      (''Task {task} for {project_ref}'',
       PDict [(''action'', PStr ''create''), (''type'', PStr ''task''), (''title'', PStr ''{task}''), (''links'', PList [PDict [(''type'', PStr ''project''), (''query'', PStr ''{project_ref}'')]])])]"

definition timed_creation_timed_task_templates :: "(string \<times> pyval) list" where
  "timed_creation_timed_task_templates =
     [(''Task {task} at {time}'',
       PDict [(''action'', PStr ''create''), (''type'', PStr ''task''), (''title'', PStr ''{task}''), (''metadata'', PDict [(''startTime'', PStr ''{time}'')])]),
      (''{task} at {time}'',
       PDict [(''action'', PStr ''create''), (''type'', PStr ''task''), (''title'', PStr ''{task}''), (''metadata'', PDict [(''startTime'', PStr ''{time}'')])]),
      (''Remind me to {task} at {time}'',
       PDict [(''action'', PStr ''create''), (''type'', PStr ''task''), (''title'', PStr ''{task}''), (''metadata'', PDict [(''startTime'', PStr ''{time}'')])]),
      (''Schedule {task} for {time}'',
       PDict [(''action'', PStr ''create''), (''type'', PStr ''task''), (''title'', PStr ''{task}''), (''metadata'', PDict [(''startTime'', PStr ''{time}'')])]),
      (''{task} scheduled for {time}'',
       PDict [(''action'', PStr ''create''), (''type'', PStr ''task''), (''title'', PStr ''{task}''), (''metadata'', PDict [(''startTime'', PStr ''{time}'')])]),
      (''Put {task} at {time}'',
       PDict [(''action'', PStr ''create''), (''type'', PStr ''task''), (''title'', PStr ''{task}''), (''metadata'', PDict [(''startTime'', PStr ''{time}'')])])]"

definition timed_creation_relative_task_templates :: "(string \<times> pyval) list" where
  "timed_creation_relative_task_templates =
     [(''{task} {relative_time}'',
       PDict [(''action'', PStr ''create''), (''type'', PStr ''task''), (''title'', PStr ''{task}''), (''metadata'', PDict [(''startTime'', PStr ''{relative_time}'')])]),
      (''Remind me {relative_time} to {task}'',
       PDict [(''action'', PStr ''create''), (''type'', PStr ''task''), (''title'', PStr ''{task}''), (''metadata'', PDict [(''startTime'', PStr ''{relative_time}'')])]),
      (''Schedule {task} for {relative_time}'',
       PDict [(''action'', PStr ''create''), (''type'', PStr ''task''), (''title'', PStr ''{task}''), (''metadata'', PDict [(''startTime'', PStr ''{relative_time}'')])]),
      (''{relative_time} {task}'',
       PDict [(''action'', PStr ''create''), (''type'', PStr ''task''), (''title'', PStr ''{task}''), (''metadata'', PDict [(''startTime'', PStr ''{relative_time}'')])])]"

definition timed_creation_block_range_templates :: "(string \<times> pyval) list" where
  "timed_creation_block_range_templates =
     [(''Block {start_time} to {end_time} for {block_name}'',
       PDict [(''action'', PStr ''create''), (''type'', PStr ''schedule_block''), (''title'', PStr ''{block_name}''), (''metadata'', PDict [(''startTime'', PStr ''{start_time}''), (''endTime'', PStr ''{end_time}''), (''blockType'', PStr ''focus'')])]),
      (''Deep work from {start_time} to {end_time}'',
       PDict [(''action'', PStr ''create''), (''type'', PStr ''schedule_block''), (''title'', PStr ''Deep work''), (''metadata'', PDict [(''startTime'', PStr ''{start_time}''), (''endTime'', PStr ''{end_time}''), (''blockType'', PStr ''focus'')])]),
      (''Focus time {start_time} to {end_time}'',
       PDict [(''action'', PStr ''create''), (''type'', PStr ''schedule_block''), (''title'', PStr ''Focus time''), (''metadata'', PDict [(''startTime'', PStr ''{start_time}''), (''endTime'', PStr ''{end_time}''), (''blockType'', PStr ''focus'')])]),
      (''Meeting from {start_time} to {end_time} {block_name}'',
       PDict [(''action'', PStr ''create''), (''type'', PStr ''schedule_block''), (''title'', PStr ''{block_name}''), (''metadata'', PDict [(''startTime'', PStr ''{start_time}''), (''endTime'', PStr ''{end_time}''), (''blockType'', PStr ''event'')])]),
      (''{block_name} from {start_time} to {end_time}'',
       PDict [(''action'', PStr ''create''), (''type'', PStr ''schedule_block''), (''title'', PStr ''{block_name}''), (''metadata'', PDict [(''startTime'', PStr ''{start_time}''), (''endTime'', PStr ''{end_time}''), (''blockType'', PStr ''task'')])])]"

definition timed_creation_block_duration_templates :: "(string \<times> pyval) list" where
  "timed_creation_block_duration_templates =
     [(''Block {duration} for {block_name} at {time}'',
       PDict [(''action'', PStr ''create''), (''type'', PStr ''schedule_block''), (''title'', PStr ''{block_name}''), (''metadata'', PDict [(''startTime'', PStr ''{time}''), (''duration'', PStr ''{duration}''), (''blockType'', PStr ''task'')])]),
      (''{duration} of {block_name} at {time}'',
       PDict [(''action'', PStr ''create''), (''type'', PStr ''schedule_block''), (''title'', PStr ''{block_name}''), (''metadata'', PDict [(''startTime'', PStr ''{time}''), (''duration'', PStr ''{duration}''), (''blockType'', PStr ''task'')])]),
      (''Schedule {duration} for {block_name}'',
       PDict [(''action'', PStr ''create''), (''type'', PStr ''schedule_block''), (''title'', PStr ''{block_name}''), (''metadata'', PDict [(''duration'', PStr ''{duration}''), (''blockType'', PStr ''task'')])])]"

definition timed_creation_meeting_templates :: "(string \<times> pyval) list" where
  "timed_creation_meeting_templates =
     [(''Meeting with {person} at {time}'',
       PDict [(''action'', PStr ''create''), (''type'', PStr ''schedule_block''), (''title'', PStr ''Meeting with {person}''), (''metadata'', PDict [(''startTime'', PStr ''{time}''), (''blockType'', PStr ''event'')])]),
      (''Call with {person} at {time}'',
       PDict [(''action'', PStr ''create''), (''type'', PStr ''schedule_block''), (''title'', PStr ''Call with {person}''), (''metadata'', PDict [(''startTime'', PStr ''{time}''), (''blockType'', PStr ''event'')])]),
      (''1:1 with {person} at {time}'',
       PDict [(''action'', PStr ''create''), (''type'', PStr ''schedule_block''), (''title'', PStr ''1:1 with {person}''), (''metadata'', PDict [(''startTime'', PStr ''{time}''), (''blockType'', PStr ''event'')])]),
      (''Sync with {person} {relative_time}'',
       PDict [(''action'', PStr ''create''), (''type'', PStr ''schedule_block''), (''title'', PStr ''Sync with {person}''), (''metadata'', PDict [(''startTime'', PStr ''{relative_time}''), (''blockType'', PStr ''event'')])])]"

definition timed_creation_timed_task_project_templates :: "(string \<times> pyval) list" where
  "timed_creation_timed_task_project_templates =
     [(''Task for {project_ref} {task} at {time}'',
       PDict [(''action'', PStr ''create''), (''type'', PStr ''task''), (''title'', PStr ''{task}''), (''metadata'', PDict [(''startTime'', PStr ''{time}'')]), (''links'', PList [PDict [(''type'', PStr ''project''), (''query'', PStr ''{project_ref}'')]])]),
      (''{task} for {project_ref} at {time}'',
       PDict [(''action'', PStr ''create''), (''type'', PStr ''task''), (''title'', PStr ''{task}''), (''metadata'', PDict [(''startTime'', PStr ''{time}'')]), (''links'', PList [PDict [(''type'', PStr ''project''), (''query'', PStr ''{project_ref}'')]])]),
      (''Remind me for {project_ref} to {task} at {time}'',
       PDict [(''action'', PStr ''create''), (''type'', PStr ''task''), (''title'', PStr ''{task}''), (''metadata'', PDict [(''startTime'', PStr ''{time}'')]), (''links'', PList [PDict [(''type'', PStr ''project''), (''query'', PStr ''{project_ref}'')]])])]"

definition timed_creation_people :: "string list" where
  "timed_creation_people =
     [''John'', ''Sarah'', ''Alex'', ''Mike'', ''Lisa'', ''David'', ''Emily'', ''Chris'',
      ''Rachel'', ''Tom'', ''the team'', ''marketing'', ''design'', ''engineering'', ''product'']"

definition timed_creation_block_names :: "string list" where
  "timed_creation_block_names =
     [''deep work'', ''focused coding'', ''writing time'', ''review session'', ''planning'',
      ''research'', ''reading'', ''admin tasks'', ''emails'', ''brainstorming'']"

definition modification_status_templates :: "(string \<times> pyval) list" where
  "modification_status_templates =
     [(''Mark as complete'',
       PDict [(''action'', PStr ''update''), (''target'', PStr ''context''), (''metadata'', PDict [(''status'', PStr ''completed'')])]),
      (''Done'',
       PDict [(''action'', PStr ''update''), (''target'', PStr ''context''), (''metadata'', PDict [(''status'', PStr ''completed'')])]),
      (''Complete'',
       PDict [(''action'', PStr ''update''), (''target'', PStr ''context''), (''metadata'', PDict [(''status'', PStr ''completed'')])]),
      (''Finish this'',
       PDict [(''action'', PStr ''update''), (''target'', PStr ''context''), (''metadata'', PDict [(''status'', PStr ''completed'')])]),
      (''Check this off'',
       PDict [(''action'', PStr ''update''), (''target'', PStr ''context''), (''metadata'', PDict [(''status'', PStr ''completed'')])]),
      (''I finished this'',
       PDict [(''action'', PStr ''update''), (''target'', PStr ''context''), (''metadata'', PDict [(''status'', PStr ''completed'')])]),
      ((''That'' @ [CHR 0x27] @ ''s done''),
       PDict [(''action'', PStr ''update''), (''target'', PStr ''context''), (''metadata'', PDict [(''status'', PStr ''completed'')])]),
      (''Mark in progress'',
       PDict [(''action'', PStr ''update''), (''target'', PStr ''context''), (''metadata'', PDict [(''status'', PStr ''in_progress'')])]),
      (''Start working on this'',
       PDict [(''action'', PStr ''update''), (''target'', PStr ''context''), (''metadata'', PDict [(''status'', PStr ''in_progress'')])]),
      (''Working on it'',
       PDict [(''action'', PStr ''update''), (''target'', PStr ''context''), (''metadata'', PDict [(''status'', PStr ''in_progress'')])]),
      (''Reopen this'',
       PDict [(''action'', PStr ''update''), (''target'', PStr ''context''), (''metadata'', PDict [(''status'', PStr ''todo'')])]),
      (''Not done yet'',
       PDict [(''action'', PStr ''update''), (''target'', PStr ''context''), (''metadata'', PDict [(''status'', PStr ''todo'')])]),
      (''Undo complete'',
       PDict [(''action'', PStr ''update''), (''target'', PStr ''context''), (''metadata'', PDict [(''status'', PStr ''todo'')])])]"

definition modification_time_templates :: "(string \<times> pyval) list" where
  "modification_time_templates =
     [(''Move to {time}'',
       PDict [(''action'', PStr ''update''), (''target'', PStr ''context''), (''metadata'', PDict [(''startTime'', PStr ''{time}'')])]),
      (''Reschedule to {time}'',
       PDict [(''action'', PStr ''update''), (''target'', PStr ''context''), (''metadata'', PDict [(''startTime'', PStr ''{time}'')])]),
      (''Push to {time}'',
       PDict [(''action'', PStr ''update''), (''target'', PStr ''context''), (''metadata'', PDict [(''startTime'', PStr ''{time}'')])]),
      (''Change time to {time}'',
       PDict [(''action'', PStr ''update''), (''target'', PStr ''context''), (''metadata'', PDict [(''startTime'', PStr ''{time}'')])]),
      (''Move this to {relative_time}'',
       PDict [(''action'', PStr ''update''), (''target'', PStr ''context''), (''metadata'', PDict [(''startTime'', PStr ''{relative_time}'')])]),
      (''Delay to {relative_time}'',
       PDict [(''action'', PStr ''update''), (''target'', PStr ''context''), (''metadata'', PDict [(''startTime'', PStr ''{relative_time}'')])]),
      (''Extend to {time}'',
       PDict [(''action'', PStr ''update''), (''target'', PStr ''context''), (''metadata'', PDict [(''endTime'', PStr ''{time}'')])]),
      (''End at {time}'',
       PDict [(''action'', PStr ''update''), (''target'', PStr ''context''), (''metadata'', PDict [(''endTime'', PStr ''{time}'')])]),
      (''Make it end at {time}'',
       PDict [(''action'', PStr ''update''), (''target'', PStr ''context''), (''metadata'', PDict [(''endTime'', PStr ''{time}'')])])]"

definition modification_priority_templates :: "(string \<times> pyval) list" where
  "modification_priority_templates =
     [(''Make this high priority'',
       PDict [(''action'', PStr ''update''), (''target'', PStr ''context''), (''metadata'', PDict [(''priority'', PStr ''high'')])]),
      (''High priority'',
       PDict [(''action'', PStr ''update''), (''target'', PStr ''context''), (''metadata'', PDict [(''priority'', PStr ''high'')])]),
      (''This is urgent'',
       PDict [(''action'', PStr ''update''), (''target'', PStr ''context''), (''metadata'', PDict [(''priority'', PStr ''high'')])]),
      (''Important'',
       PDict [(''action'', PStr ''update''), (''target'', PStr ''context''), (''metadata'', PDict [(''priority'', PStr ''high'')])]),
      (''Lower the priority'',
       PDict [(''action'', PStr ''update''), (''target'', PStr ''context''), (''metadata'', PDict [(''priority'', PStr ''low'')])]),
      (''Low priority'',
       PDict [(''action'', PStr ''update''), (''target'', PStr ''context''), (''metadata'', PDict [(''priority'', PStr ''low'')])]),
      (''Not that important'',
       PDict [(''action'', PStr ''update''), (''target'', PStr ''context''), (''metadata'', PDict [(''priority'', PStr ''low'')])]),
      (''Normal priority'',
       PDict [(''action'', PStr ''update''), (''target'', PStr ''context''), (''metadata'', PDict [(''priority'', PStr ''medium'')])]),
      (''Medium priority'',
       PDict [(''action'', PStr ''update''), (''target'', PStr ''context''), (''metadata'', PDict [(''priority'', PStr ''medium'')])])]"

definition modification_project_templates :: "(string \<times> pyval) list" where
  "modification_project_templates =
     [(''Add to {project} project'',
       PDict [(''action'', PStr ''update''), (''target'', PStr ''context''), (''links'', PList [PDict [(''type'', PStr ''project''), (''query'', PStr ''{project}'')]])]),
      (''Move to {project}'',
       PDict [(''action'', PStr ''update''), (''target'', PStr ''context''), (''links'', PList [PDict [(''type'', PStr ''project''), (''query'', PStr ''{project}'')]])]),
      (''Put this in {project}'',
       PDict [(''action'', PStr ''update''), (''target'', PStr ''context''), (''links'', PList [PDict [(''type'', PStr ''project''), (''query'', PStr ''{project}'')]])]),
      (''Assign to {project}'',
       PDict [(''action'', PStr ''update''), (''target'', PStr ''context''), (''links'', PList [PDict [(''type'', PStr ''project''), (''query'', PStr ''{project}'')]])]),
      (''This belongs in {project}'',
       PDict [(''action'', PStr ''update''), (''target'', PStr ''context''), (''links'', PList [PDict [(''type'', PStr ''project''), (''query'', PStr ''{project}'')]])]),
      (''Add to {person_name}'',
       PDict [(''action'', PStr ''update''), (''target'', PStr ''context''), (''links'', PList [PDict [(''type'', PStr ''project''), (''query'', PStr ''{person_name}'')]])]),
      (''Move to {person_name}'',
       PDict [(''action'', PStr ''update''), (''target'', PStr ''context''), (''links'', PList [PDict [(''type'', PStr ''project''), (''query'', PStr ''{person_name}'')]])]),
      (''Put in {person_name} inbox'',
       PDict [(''action'', PStr ''update''), (''target'', PStr ''context''), (''links'', PList [PDict [(''type'', PStr ''project''), (''query'', PStr ''{person_name}'')]])]),
      (''Send to {person_name}'',
       PDict [(''action'', PStr ''update''), (''target'', PStr ''context''), (''links'', PList [PDict [(''type'', PStr ''project''), (''query'', PStr ''{person_name}'')]])])]"

definition modification_content_templates :: "(string \<times> pyval) list" where
  "modification_content_templates =
     [(''Rename to {task}'',
       PDict [(''action'', PStr ''update''), (''target'', PStr ''context''), (''title'', PStr ''{task}'')]),
      (''Change title to {task}'',
       PDict [(''action'', PStr ''update''), (''target'', PStr ''context''), (''title'', PStr ''{task}'')]),
      (''Call it {task} instead'',
       PDict [(''action'', PStr ''update''), (''target'', PStr ''context''), (''title'', PStr ''{task}'')]),
      (''Actually make it {task}'',
       PDict [(''action'', PStr ''update''), (''target'', PStr ''context''), (''title'', PStr ''{task}'')])]"

definition modification_delete_templates :: "(string \<times> pyval) list" where
  "modification_delete_templates =
     [(''Delete this'',
       PDict [(''action'', PStr ''delete''), (''target'', PStr ''context'')]),
      (''Remove this'',
       PDict [(''action'', PStr ''delete''), (''target'', PStr ''context'')]),
      (''Delete that'',
       PDict [(''action'', PStr ''delete''), (''target'', PStr ''context'')]),
      (''Get rid of this'',
       PDict [(''action'', PStr ''delete''), (''target'', PStr ''context'')]),
      (''Remove it'',
       PDict [(''action'', PStr ''delete''), (''target'', PStr ''context'')]),
      (''Cancel this'',
       PDict [(''action'', PStr ''delete''), (''target'', PStr ''context'')]),
      (''Never mind'',
       PDict [(''action'', PStr ''delete''), (''target'', PStr ''context'')])]"

definition search_type_search_templates :: "(string \<times> pyval) list" where
  "search_type_search_templates =
     [(''Find ideas about {query}'',
       PDict [(''action'', PStr ''search''), (''type'', PStr ''idea''), (''query'', PStr ''{query}'')]),
      (''Show ideas about {query}'',
       PDict [(''action'', PStr ''search''), (''type'', PStr ''idea''), (''query'', PStr ''{query}'')]),
      (''Search ideas for {query}'',
       PDict [(''action'', PStr ''search''), (''type'', PStr ''idea''), (''query'', PStr ''{query}'')]),
      (''What ideas do I have about {query}'',
       PDict [(''action'', PStr ''search''), (''type'', PStr ''idea''), (''query'', PStr ''{query}'')]),
      (''Find tasks about {query}'',
       PDict [(''action'', PStr ''search''), (''type'', PStr ''task''), (''query'', PStr ''{query}'')]),
      (''Show tasks for {query}'',
       PDict [(''action'', PStr ''search''), (''type'', PStr ''task''), (''query'', PStr ''{query}'')]),
      (''What tasks are related to {query}'',
       PDict [(''action'', PStr ''search''), (''type'', PStr ''task''), (''query'', PStr ''{query}'')]),
      (''Find research on {query}'',
       PDict [(''action'', PStr ''search''), (''type'', PStr ''research''), (''query'', PStr ''{query}'')]),
      (''Show me research about {query}'',
       PDict [(''action'', PStr ''search''), (''type'', PStr ''research''), (''query'', PStr ''{query}'')]),
      (''What research do I have on {query}'',
       PDict [(''action'', PStr ''search''), (''type'', PStr ''research''), (''query'', PStr ''{query}'')]),
      (''Find notes about {query}'',
       PDict [(''action'', PStr ''search''), (''type'', PStr ''note''), (''query'', PStr ''{query}'')]),
      (''Show notes about {query}'',
       PDict [(''action'', PStr ''search''), (''type'', PStr ''note''), (''query'', PStr ''{query}'')]),
      (''Search notes for {query}'',
       PDict [(''action'', PStr ''search''), (''type'', PStr ''note''), (''query'', PStr ''{query}'')]),
      (''What notes do I have about {query}'',
       PDict [(''action'', PStr ''search''), (''type'', PStr ''note''), (''query'', PStr ''{query}'')]),
      (''Find thinkspaces about {query}'',
       PDict [(''action'', PStr ''search''), (''type'', PStr ''thinkspace''), (''query'', PStr ''{query}'')]),
      (''Show thinkspaces for {query}'',
       PDict [(''action'', PStr ''search''), (''type'', PStr ''thinkspace''), (''query'', PStr ''{query}'')]),
      (''What canvases do I have about {query}'',
       PDict [(''action'', PStr ''search''), (''type'', PStr ''thinkspace''), (''query'', PStr ''{query}'')]),
      (''Find connections about {query}'',
       PDict [(''action'', PStr ''search''), (''type'', PStr ''connection''), (''query'', PStr ''{query}'')]),
      (''Show connections for {query}'',
       PDict [(''action'', PStr ''search''), (''type'', PStr ''connection''), (''query'', PStr ''{query}'')]),
      (''What mental models do I have about {query}'',
       PDict [(''action'', PStr ''search''), (''type'', PStr ''connection''), (''query'', PStr ''{query}'')])]"

definition search_general_search_templates :: "(string \<times> pyval) list" where
  "search_general_search_templates =
     [(''Search for {query}'',
       PDict [(''action'', PStr ''search''), (''query'', PStr ''{query}'')]),
      (''Find {query}'',
       PDict [(''action'', PStr ''search''), (''query'', PStr ''{query}'')]),
      (''Look for {query}'',
       PDict [(''action'', PStr ''search''), (''query'', PStr ''{query}'')]),
      (''What do I have about {query}'',
       PDict [(''action'', PStr ''search''), (''query'', PStr ''{query}'')]),
      (''Search {query}'',
       PDict [(''action'', PStr ''search''), (''query'', PStr ''{query}'')]),
      (''Find anything about {query}'',
       PDict [(''action'', PStr ''search''), (''query'', PStr ''{query}'')])]"

definition search_time_search_templates :: "(string \<times> pyval) list" where
  "search_time_search_templates =
     [(''What tasks are due today'',
       PDict [(''action'', PStr ''search''), (''type'', PStr ''task''), (''filter'', PDict [(''dueDate'', PStr ''today'')])]),
      ((''Show me today'' @ [CHR 0x27] @ ''s tasks''),
       PDict [(''action'', PStr ''search''), (''type'', PStr ''task''), (''filter'', PDict [(''dueDate'', PStr ''today'')])]),
      ((''What'' @ [CHR 0x27] @ ''s due this week''),
       PDict [(''action'', PStr ''search''), (''type'', PStr ''task''), (''filter'', PDict [(''dueDate'', PStr ''this week'')])]),
      (''Tasks for tomorrow'',
       PDict [(''action'', PStr ''search''), (''type'', PStr ''task''), (''filter'', PDict [(''dueDate'', PStr ''tomorrow'')])]),
      (''What do I have scheduled today'',
       PDict [(''action'', PStr ''search''), (''type'', PStr ''schedule_block''), (''filter'', PDict [(''date'', PStr ''today'')])]),
      (''Show my schedule for tomorrow'',
       PDict [(''action'', PStr ''search''), (''type'', PStr ''schedule_block''), (''filter'', PDict [(''date'', PStr ''tomorrow'')])])]"

definition search_status_search_templates :: "(string \<times> pyval) list" where
  "search_status_search_templates =
     [(''Show completed tasks'',
       PDict [(''action'', PStr ''search''), (''type'', PStr ''task''), (''filter'', PDict [(''status'', PStr ''completed'')])]),
      (''What have I finished'',
       PDict [(''action'', PStr ''search''), (''type'', PStr ''task''), (''filter'', PDict [(''status'', PStr ''completed'')])]),
      (''Show open tasks'',
       PDict [(''action'', PStr ''search''), (''type'', PStr ''task''), (''filter'', PDict [(''status'', PStr ''todo'')])]),
      ((''What'' @ [CHR 0x27] @ ''s left to do''),
       PDict [(''action'', PStr ''search''), (''type'', PStr ''task''), (''filter'', PDict [(''status'', PStr ''todo'')])]),
      (''Tasks in progress'',
       PDict [(''action'', PStr ''search''), (''type'', PStr ''task''), (''filter'', PDict [(''status'', PStr ''in_progress'')])]),
      (''What am I working on'',
       PDict [(''action'', PStr ''search''), (''type'', PStr ''task''), (''filter'', PDict [(''status'', PStr ''in_progress'')])])]"

definition search_project_search_templates :: "(string \<times> pyval) list" where
  "search_project_search_templates =
     [(''Show tasks in {project}'',
       PDict [(''action'', PStr ''search''), (''type'', PStr ''task''), (''filter'', PDict [(''project'', PStr ''{project}'')])]),
      ((''What'' @ [CHR 0x27] @ ''s in {project} project''),
       PDict [(''action'', PStr ''search''), (''filter'', PDict [(''project'', PStr ''{project}'')])]),
      (''Ideas for {project}'',
       PDict [(''action'', PStr ''search''), (''type'', PStr ''idea''), (''filter'', PDict [(''project'', PStr ''{project}'')])]),
      (''Everything in {project}'',
       PDict [(''action'', PStr ''search''), (''filter'', PDict [(''project'', PStr ''{project}'')])]),
      (''Show ideas for {person_name}'',
       PDict [(''action'', PStr ''search''), (''type'', PStr ''idea''), (''filter'', PDict [(''project'', PStr ''{person_name}'')])]),
      ((''What'' @ [CHR 0x27] @ ''s in {person_name}''),
       PDict [(''action'', PStr ''search''), (''filter'', PDict [(''project'', PStr ''{person_name}'')])]),
      (''Tasks for {person_name}'',
       PDict [(''action'', PStr ''search''), (''type'', PStr ''task''), (''filter'', PDict [(''project'', PStr ''{person_name}'')])]),
      (''{person_name} inbox'',
       PDict [(''action'', PStr ''search''), (''filter'', PDict [(''project'', PStr ''{person_name}'')])]),
      (''Show {person_name} project'',
       PDict [(''action'', PStr ''search''), (''filter'', PDict [(''project'', PStr ''{person_name}'')])])]"

definition search_semantic_templates :: "(string \<times> pyval) list" where
  "search_semantic_templates =
     [((''What'' @ [CHR 0x27] @ ''s relevant to this''),
       PDict [(''action'', PStr ''search''), (''target'', PStr ''context''), (''mode'', PStr ''semantic'')]),
      (''Find related items'',
       PDict [(''action'', PStr ''search''), (''target'', PStr ''context''), (''mode'', PStr ''semantic'')]),
      (''Show similar things'',
       PDict [(''action'', PStr ''search''), (''target'', PStr ''context''), (''mode'', PStr ''semantic'')]),
      (''What connects to this'',
       PDict [(''action'', PStr ''search''), (''target'', PStr ''context''), (''mode'', PStr ''semantic'')])]"

definition search_navigation_templates :: "(string \<times> pyval) list" where
  "search_navigation_templates =
     [(''Open projects'',
       PDict [(''action'', PStr ''navigate''), (''destination'', PStr ''projects'')]),
      (''Go to ideas'',
       PDict [(''action'', PStr ''navigate''), (''destination'', PStr ''ideas'')]),
      (''Show me tasks'',
       PDict [(''action'', PStr ''navigate''), (''destination'', PStr ''tasks'')]),
      (''Open today'',
       PDict [(''action'', PStr ''navigate''), (''destination'', PStr ''today'')]),
      (''Go to schedule'',
       PDict [(''action'', PStr ''navigate''), (''destination'', PStr ''schedule'')]),
      (''Show research'',
       PDict [(''action'', PStr ''navigate''), (''destination'', PStr ''research'')]),
      (''Open settings'',
       PDict [(''action'', PStr ''navigate''), (''destination'', PStr ''settings'')]),
      (''Go home'',
       PDict [(''action'', PStr ''navigate''), (''destination'', PStr ''home'')]),
      (''Open plannerum'',
       PDict [(''action'', PStr ''navigate''), (''destination'', PStr ''plannerum'')]),
      (''Go to planner'',
       PDict [(''action'', PStr ''navigate''), (''destination'', PStr ''plannerum'')]),
      (''Show planner'',
       PDict [(''action'', PStr ''navigate''), (''destination'', PStr ''plannerum'')]),
      (''Open thinkspace'',
       PDict [(''action'', PStr ''navigate''), (''destination'', PStr ''thinkspace'')]),
      (''Go to canvas'',
       PDict [(''action'', PStr ''navigate''), (''destination'', PStr ''thinkspace'')]),
      (''Show canvas'',
       PDict [(''action'', PStr ''navigate''), (''destination'', PStr ''thinkspace'')]),
      (''Open inbox'',
       PDict [(''action'', PStr ''navigate''), (''destination'', PStr ''inbox'')]),
      (''Go to inbox'',
       PDict [(''action'', PStr ''navigate''), (''destination'', PStr ''inbox'')]),
      (''Open notes'',
       PDict [(''action'', PStr ''navigate''), (''destination'', PStr ''notes'')]),
      (''Go to notes'',
       PDict [(''action'', PStr ''navigate''), (''destination'', PStr ''notes'')])]"

definition batch_two_item_templates :: "(string \<times> pyval) list" where
  "batch_two_item_templates =
     [(''I need to {task1} and {task2}'',
       PDict [(''action'', PStr ''batch''), (''items'', PList [PDict [(''type'', PStr ''task''), (''title'', PStr ''{task1}'')], PDict [(''type'', PStr ''task''), (''title'', PStr ''{task2}'')]])]),
      (''{task1} and {task2}'',
       PDict [(''action'', PStr ''batch''), (''items'', PList [PDict [(''type'', PStr ''task''), (''title'', PStr ''{task1}'')], PDict [(''type'', PStr ''task''), (''title'', PStr ''{task2}'')]])]),
      (''Create tasks {task1} and {task2}'',
       PDict [(''action'', PStr ''batch''), (''items'', PList [PDict [(''type'', PStr ''task''), (''title'', PStr ''{task1}'')], PDict [(''type'', PStr ''task''), (''title'', PStr ''{task2}'')]])]),
      (''Add {task1} and also {task2}'',
       PDict [(''action'', PStr ''batch''), (''items'', PList [PDict [(''type'', PStr ''task''), (''title'', PStr ''{task1}'')], PDict [(''type'', PStr ''task''), (''title'', PStr ''{task2}'')]])])]"

definition batch_three_item_templates :: "(string \<times> pyval) list" where
  "batch_three_item_templates =
     [(''I need to {task1}, {task2}, and {task3}'',
       PDict [(''action'', PStr ''batch''), (''items'', PList [PDict [(''type'', PStr ''task''), (''title'', PStr ''{task1}'')], PDict [(''type'', PStr ''task''), (''title'', PStr ''{task2}'')], PDict [(''type'', PStr ''task''), (''title'', PStr ''{task3}'')]])]),
      (''{task1}, {task2}, and {task3}'',
       PDict [(''action'', PStr ''batch''), (''items'', PList [PDict [(''type'', PStr ''task''), (''title'', PStr ''{task1}'')], PDict [(''type'', PStr ''task''), (''title'', PStr ''{task2}'')], PDict [(''type'', PStr ''task''), (''title'', PStr ''{task3}'')]])]),
      (''Create tasks for {task1}, {task2}, and {task3}'',
       PDict [(''action'', PStr ''batch''), (''items'', PList [PDict [(''type'', PStr ''task''), (''title'', PStr ''{task1}'')], PDict [(''type'', PStr ''task''), (''title'', PStr ''{task2}'')], PDict [(''type'', PStr ''task''), (''title'', PStr ''{task3}'')]])]),
      (''Add to my list {task1}, {task2}, {task3}'',
       PDict [(''action'', PStr ''batch''), (''items'', PList [PDict [(''type'', PStr ''task''), (''title'', PStr ''{task1}'')], PDict [(''type'', PStr ''task''), (''title'', PStr ''{task2}'')], PDict [(''type'', PStr ''task''), (''title'', PStr ''{task3}'')]])])]"

definition batch_mixed_templates :: "(string \<times> pyval) list" where
  "batch_mixed_templates =
     [(''Idea about {topic} and task to {task1}'',
       PDict [(''action'', PStr ''batch''), (''items'', PList [PDict [(''type'', PStr ''idea''), (''title'', PStr ''{topic}'')], PDict [(''type'', PStr ''task''), (''title'', PStr ''{task1}'')]])]),
      (''Note about {topic} and remind me to {task1}'',
       PDict [(''action'', PStr ''batch''), (''items'', PList [PDict [(''type'', PStr ''idea''), (''title'', PStr ''{topic}'')], PDict [(''type'', PStr ''task''), (''title'', PStr ''{task1}'')]])])]"

definition batch_batch_project_templates :: "(string \<times> pyval) list" where
  "batch_batch_project_templates =
     [(''For {project_ref} {task1} and {task2}'',
       PDict [(''action'', PStr ''batch''), (''items'', PList [PDict [(''type'', PStr ''task''), (''title'', PStr ''{task1}''), (''links'', PList [PDict [(''type'', PStr ''project''), (''query'', PStr ''{project_ref}'')]])], PDict [(''type'', PStr ''task''), (''title'', PStr ''{task2}''), (''links'', PList [PDict [(''type'', PStr ''project''), (''query'', PStr ''{project_ref}'')]])]])]),
      (''Add to {project_ref} {task1} and {task2}'',
       PDict [(''action'', PStr ''batch''), (''items'', PList [PDict [(''type'', PStr ''task''), (''title'', PStr ''{task1}''), (''links'', PList [PDict [(''type'', PStr ''project''), (''query'', PStr ''{project_ref}'')]])], PDict [(''type'', PStr ''task''), (''title'', PStr ''{task2}''), (''links'', PList [PDict [(''type'', PStr ''project''), (''query'', PStr ''{project_ref}'')]])]])])]"

definition deep_work_start_templates :: "string list" where
  "deep_work_start_templates =
     [''Start deep work'', ''Begin focus mode'', (''Let'' @ [CHR 0x27] @ ''s do deep work''),
      ''Enter focus mode'', ''Start focused time'', ''Begin concentration mode'',
      ''Go into deep work'', ''I want to focus'', ''Time to focus'', ''Focus time'',
      ''Deep work mode'', ''Heads down time'', ''No distractions mode'']"

definition deep_work_start_with_duration_templates :: "string list" where
  "deep_work_start_with_duration_templates =
     [''Start deep work for {duration}'', ''Focus for {duration}'', ''Deep work {duration}'',
      (''Let'' @ [CHR 0x27] @ ''s focus for {duration}''), ''Begin focus mode for {duration}'',
      ''{duration} of deep work'', ''I want to focus for {duration}'']"

definition deep_work_start_pomodoro_templates :: "string list" where
  "deep_work_start_pomodoro_templates =
     [''Start pomodoro'', ''Pomodoro mode'', ''Begin pomodoro session'',
      (''Let'' @ [CHR 0x27] @ ''s do pomodoro''), ''Start pomodoro deep work'']"

definition deep_work_stop_templates :: "string list" where
  "deep_work_stop_templates =
     [''Stop deep work'', ''End focus mode'', ''Done focusing'', ''Stop focus mode'',
      ''End deep work'', ''Finish focus session'', ''Exit focus mode'',
      (''I'' @ [CHR 0x27] @ ''m done focusing''), ''End concentration mode'', ''Stop the timer'']"

definition deep_work_extend_templates :: "string list" where
  "deep_work_extend_templates =
     [''Extend deep work by {duration}'', ''Add {duration} to focus time'',
      ''Extend focus {duration}'', ''Keep going for {duration} more'', ''Add {duration} more'',
      ''Continue for {duration}'', ''{duration} more of deep work'']"

definition workout_workout_templates :: "string list" where
  "workout_workout_templates =
     [''Log {workout_type}'', ''I did a {workout_type}'', ''Just finished {workout_type}'',
      ''Completed {workout_type} workout'', ''{workout_type} done'']"

definition workout_workout_with_duration_templates :: "string list" where
  "workout_workout_with_duration_templates =
     [''Log {duration} minute {workout_type}'', ''{workout_type} for {duration} minutes'',
      ''Did {duration} minutes of {workout_type}'',
      ''Just finished {duration} minute {workout_type}'']"

definition workout_run_with_distance_templates :: "string list" where
  "workout_run_with_distance_templates =
     [''Ran {distance} km'', ''Ran {distance} kilometers'', ''{distance} km run'',
      ''Went for a {distance} km run'']"

definition workout_strength_templates :: "string list" where
  "workout_strength_templates =
     [''Did {sets} sets of {reps} {exercise}'', ''{exercise} {sets} by {reps}'',
      ''Completed {sets} sets of {exercise}'', ''{reps} {exercise}'']"

section \<open>The category generators\<close>

text \<open>\<^verbatim>\<open>templates * k\<close>: the list repeated \<open>k\<close> times, which is how the script weights
  its templates.\<close>

definition repeated :: "'a list \<Rightarrow> nat \<Rightarrow> 'a list" where
  "repeated xs k = concat (replicate k xs)"

definition PROJECT_REFERENCES :: "(string \<times> string) list" where
  "PROJECT_REFERENCES =
     map (\<lambda>name. (name, ''person'')) PERSON_NAMES
     @ map (\<lambda>name. (name, ''company'')) COMPANY_NAMES
     @ map (\<lambda>name. (name, ''project'')) PROJECTS"

subsection \<open>Simple creation\<close>

definition simple_creation_all_templates :: "(string \<times> pyval) list" where
  "simple_creation_all_templates =
     repeated simple_creation_idea_templates 3
     @ repeated simple_creation_task_templates 4
     @ simple_creation_project_templates
     @ simple_creation_research_templates
     @ repeated simple_creation_note_templates 2
     @ simple_creation_thinkspace_templates
     @ simple_creation_connection_templates
     @ simple_creation_idea_priority_templates
     @ simple_creation_task_priority_templates"

definition simple_creation_step :: "pyval gen" where
  "simple_creation_step =
     gen_bind (choice simple_creation_all_templates) (\<lambda>(template, output_template).
     gen_bind (choice TOPICS) (\<lambda>topic.
     gen_bind (choice TASKS) (\<lambda>task.
     gen_bind (choice PROJECTS) (\<lambda>project.
     gen_bind (choice PRIORITIES) (\<lambda>priority.
     gen_bind (gen_lift (py_format template
        [(''topic'', topic), (''task'', task), (''project'', project), (''priority'', priority)]))
       (\<lambda>input_text.
     gen_return (example input_text
       (fill [(''{topic}'', topic), (''{task}'', task), (''{project}'', project),
              (''{priority}'', priority)] output_template))))))))"

definition generate_simple_creation_examples :: "nat \<Rightarrow> pyval list gen" where
  "generate_simple_creation_examples n = gen_repeat n simple_creation_step"

subsection \<open>Project-scoped creation\<close>

definition project_specific_all_templates :: "(string \<times> pyval) list" where
  "project_specific_all_templates =
     repeated project_specific_idea_for_project_templates 4
     @ repeated project_specific_task_for_project_templates 3
     @ project_specific_research_for_project_templates
     @ repeated project_specific_ending_with_for_templates 2"

definition project_specific_step :: "pyval gen" where
  "project_specific_step =
     gen_bind (choice project_specific_all_templates) (\<lambda>(template, output_template).
     gen_bind (choice PROJECT_REFERENCES) (\<lambda>(project_ref, ref_type).
     gen_bind (choice TOPICS) (\<lambda>topic.
     gen_bind (choice TASKS) (\<lambda>task.
     gen_bind (gen_lift (py_format template
        [(''project_ref'', project_ref), (''topic'', topic), (''task'', task)]))
       (\<lambda>input_text.
     gen_return (example input_text
       (fill [(''{project_ref}'', project_ref), (''{topic}'', topic), (''{task}'', task)]
          output_template)))))))"

definition generate_project_specific_examples :: "nat \<Rightarrow> pyval list gen" where
  "generate_project_specific_examples n = gen_repeat n project_specific_step"

subsection \<open>Timed creation\<close>

definition timed_creation_hours :: "int list" where
  "timed_creation_hours = [8, 9, 10, 11, 12, 13, 14, 15, 16, 17]"

definition timed_creation_template_types :: "string list" where
  "timed_creation_template_types =
     [''timed_task'', ''relative_task'', ''block_range'', ''block_duration'', ''meeting'',
      ''timed_project'']"

text \<open>\<^verbatim>\<open>f"{hour}{'pm' if hour >= 12 else 'am'}"\<close>\<close>

definition hour_text :: "int \<Rightarrow> string" where
  "hour_text hour = str_int hour @ (if hour \<ge> 12 then ''pm'' else ''am'')"

definition timed_creation_step :: "pyval gen" where
  "timed_creation_step =
     gen_bind (choice timed_creation_template_types) (\<lambda>template_type.
     if template_type = ''timed_task'' then
       gen_bind (choice timed_creation_timed_task_templates) (\<lambda>(template, output_template).
       gen_bind (choice TASKS) (\<lambda>task.
       gen_bind (choice TIMES) (\<lambda>time.
       gen_bind (gen_lift (py_format template [(''task'', task), (''time'', time)])) (\<lambda>input_text.
       gen_return (example input_text
         (fill [(''{task}'', task), (''{time}'', time)] output_template))))))
     else if template_type = ''relative_task'' then
       gen_bind (choice timed_creation_relative_task_templates) (\<lambda>(template, output_template).
       gen_bind (choice TASKS) (\<lambda>task.
       gen_bind (choice RELATIVE_TIMES) (\<lambda>relative_time.
       gen_bind (gen_lift (py_format template [(''task'', task), (''relative_time'', relative_time)]))
         (\<lambda>input_text.
       gen_return (example input_text
         (fill [(''{task}'', task), (''{relative_time}'', relative_time)] output_template))))))
     else if template_type = ''block_range'' then
       gen_bind (choice timed_creation_block_range_templates) (\<lambda>(template, output_template).
       gen_bind (choice (take (length timed_creation_hours - 2) timed_creation_hours)) (\<lambda>start_hour.
       gen_bind (choice [1, 2, 3]) (\<lambda>more.
       gen_bind (choice timed_creation_block_names) (\<lambda>block_name.
       gen_bind (gen_lift (py_format template
          [(''start_time'', hour_text start_hour), (''end_time'', hour_text (start_hour + more)),
           (''block_name'', block_name)])) (\<lambda>input_text.
       gen_return (example input_text
         (fill [(''{start_time}'', hour_text start_hour),
                (''{end_time}'', hour_text (start_hour + more)),
                (''{block_name}'', block_name)] output_template)))))))
     else if template_type = ''block_duration'' then
       gen_bind (choice timed_creation_block_duration_templates) (\<lambda>(template, output_template).
       gen_bind (choice DURATIONS) (\<lambda>(duration, minutes).
       gen_bind (choice timed_creation_block_names) (\<lambda>block_name.
       gen_bind (choice TIMES) (\<lambda>time.
       gen_bind (gen_lift (py_format template
          [(''duration'', duration), (''block_name'', block_name), (''time'', time)])) (\<lambda>input_text.
       gen_return (example input_text
         (fill [(''{duration}'', duration), (''{block_name}'', block_name), (''{time}'', time)]
            output_template)))))))
     else if template_type = ''timed_project'' then
       gen_bind (choice timed_creation_timed_task_project_templates) (\<lambda>(template, output_template).
       gen_bind (choice TASKS) (\<lambda>task.
       gen_bind (choice TIMES) (\<lambda>time.
       gen_bind (choice PROJECT_REFERENCES) (\<lambda>(project_ref, ref_type).
       gen_bind (gen_lift (py_format template
          [(''task'', task), (''time'', time), (''project_ref'', project_ref)])) (\<lambda>input_text.
       gen_return (example input_text
         (fill [(''{task}'', task), (''{time}'', time), (''{project_ref}'', project_ref)]
            output_template)))))))
     else
       gen_bind (choice timed_creation_meeting_templates) (\<lambda>(template, output_template).
       gen_bind (choice timed_creation_people) (\<lambda>person.
       gen_bind (choice TIMES) (\<lambda>time.
       gen_bind (choice RELATIVE_TIMES) (\<lambda>relative_time.
       gen_bind (gen_lift (py_format template
          [(''person'', person), (''time'', time), (''relative_time'', relative_time)]))
         (\<lambda>input_text.
       gen_return (example input_text
         (fill [(''{person}'', person), (''{time}'', time), (''{relative_time}'', relative_time)]
            output_template))))))))"

definition generate_timed_creation_examples :: "nat \<Rightarrow> pyval list gen" where
  "generate_timed_creation_examples n = gen_repeat n timed_creation_step"

subsection \<open>Modification\<close>

definition modification_all_templates :: "(string \<times> pyval) list" where
  "modification_all_templates =
     repeated modification_status_templates 3
     @ repeated modification_time_templates 2
     @ repeated modification_priority_templates 2
     @ repeated modification_project_templates 3
     @ modification_content_templates
     @ repeated modification_delete_templates 2"

definition modification_step :: "pyval gen" where
  "modification_step =
     gen_bind (choice modification_all_templates) (\<lambda>(template, output_template).
     gen_bind (choice TIMES) (\<lambda>time.
     gen_bind (choice RELATIVE_TIMES) (\<lambda>relative_time.
     gen_bind (choice PROJECTS) (\<lambda>project.
     gen_bind (choice PERSON_NAMES) (\<lambda>person_name.
     gen_bind (choice TASKS) (\<lambda>task.
     gen_bind (gen_lift (py_format template
        [(''time'', time), (''relative_time'', relative_time), (''project'', project),
         (''task'', task), (''person_name'', person_name)])) (\<lambda>input_text.
     gen_return (example input_text
       (fill [(''{time}'', time), (''{relative_time}'', relative_time), (''{project}'', project),
              (''{person_name}'', person_name), (''{task}'', task)] output_template)))))))))"

definition generate_modification_examples :: "nat \<Rightarrow> pyval list gen" where
  "generate_modification_examples n = gen_repeat n modification_step"

subsection \<open>Search\<close>

text \<open>\<^verbatim>\<open>t.split()[-1]\<close>: the last of the words of \<open>t\<close> that blanks separate
  (\<^verbatim>\<open>IndexError\<close> when there is none). \<open>split_words\<close> keeps the word read so far in
  its first argument.\<close>

fun split_words :: "string \<Rightarrow> string \<Rightarrow> string list" where
  "split_words w [] = (if w = [] then [] else [w])"
| "split_words w (c # cs) =
     (if c = CHR '' '' then (if w = [] then split_words [] cs else w # split_words [] cs)
      else split_words (w @ [c]) cs)"

fun last_words :: "string list \<Rightarrow> error + string list" where
  "last_words [] = Inr []"
| "last_words (t # ts) =
     (if split_words [] t = [] then Inl IndexError
      else (case last_words ts of Inl e \<Rightarrow> Inl e | Inr ws \<Rightarrow> Inr (last (split_words [] t) # ws)))"

text \<open>\<^verbatim>\<open>search_queries = TOPICS + list(set([...]))\<close>. The order in which a set is listed
  is not fixed by the language; the model lists each word once, in the order of first
  occurrence.\<close>

definition search_queries :: "error + string list" where
  "search_queries =
     (case last_words TASKS of Inl e \<Rightarrow> Inl e | Inr ws \<Rightarrow> Inr (TOPICS @ remdups ws))"

definition search_all_templates :: "(string \<times> pyval) list" where
  "search_all_templates =
     repeated search_type_search_templates 3
     @ repeated search_general_search_templates 3
     @ repeated search_time_search_templates 2
     @ repeated search_status_search_templates 2
     @ repeated search_project_search_templates 3
     @ search_semantic_templates
     @ repeated search_navigation_templates 2"

definition search_step :: "string list \<Rightarrow> pyval gen" where
  "search_step queries =
     gen_bind (choice search_all_templates) (\<lambda>(template, output_template).
     gen_bind (choice queries) (\<lambda>query.
     gen_bind (choice PROJECTS) (\<lambda>project.
     gen_bind (choice PERSON_NAMES) (\<lambda>person_name.
     gen_bind (gen_lift (py_format template
        [(''query'', query), (''project'', project), (''person_name'', person_name)]))
       (\<lambda>input_text.
     gen_return (example input_text
       (fill [(''{query}'', query), (''{project}'', project), (''{person_name}'', person_name)]
          output_template)))))))"

definition generate_search_examples :: "nat \<Rightarrow> pyval list gen" where
  "generate_search_examples n =
     gen_bind (gen_lift search_queries) (\<lambda>queries. gen_repeat n (search_step queries))"

subsection \<open>Batch\<close>

definition batch_all_templates :: "(string \<times> pyval) list" where
  "batch_all_templates =
     repeated batch_two_item_templates 3
     @ repeated batch_three_item_templates 2
     @ batch_mixed_templates
     @ repeated batch_batch_project_templates 2"

definition batch_step :: "pyval gen" where
  "batch_step =
     gen_bind (choice batch_all_templates) (\<lambda>(template, output_template).
     gen_bind (sample TASKS 3) (\<lambda>tasks.
     gen_bind (choice TOPICS) (\<lambda>topic.
     gen_bind (choice PROJECT_REFERENCES) (\<lambda>(project_ref, ref_type).
     gen_bind (gen_lift (py_format template
        [(''task1'', tasks ! 0), (''task2'', tasks ! 1),
         (''task3'', if contains ''{task3}'' template then tasks ! 2 else ''''),
         (''topic'', topic), (''project_ref'', project_ref)])) (\<lambda>input_text.
     gen_return (example input_text
       (fill [(''{task1}'', tasks ! 0), (''{task2}'', tasks ! 1), (''{task3}'', tasks ! 2),
              (''{topic}'', topic), (''{project_ref}'', project_ref)] output_template)))))))"

definition generate_batch_examples :: "nat \<Rightarrow> pyval list gen" where
  "generate_batch_examples n = gen_repeat n batch_step"

subsection \<open>Level-system queries\<close>

definition level_system_step :: "pyval gen" where
  "level_system_step =
     gen_bind (choice LEVEL_QUERY_TYPES) (\<lambda>(query_type, templates).
     gen_bind (choice templates) (\<lambda>template.
     if query_type = ''dimensionStatus'' then
       gen_bind (choice DIMENSIONS) (\<lambda>dimension.
       gen_bind (choice
          [''How'' @ [CHR 0x27] @ ''s my '' @ dimension @ '' dimension'',
           ''Show '' @ dimension @ '' status'',
           ''What'' @ [CHR 0x27] @ ''s my '' @ dimension @ '' progress'',
           capitalize dimension @ '' dimension status'']) (\<lambda>template'.
       gen_return (example template'
         (PStr (make_function_call ''query_level_system''
            [(''query_type'', PStr query_type), (''dimension'', PStr dimension)])))))
     else
       gen_return (example template
         (PStr (make_function_call ''query_level_system'' [(''query_type'', PStr query_type)])))))"

definition generate_level_system_examples :: "nat \<Rightarrow> pyval list gen" where
  "generate_level_system_examples n = gen_repeat n level_system_step"

subsection \<open>Deep-work control\<close>

definition deep_work_start_step :: "pyval gen" where
  "deep_work_start_step =
     gen_bind (choice deep_work_start_templates) (\<lambda>template.
     gen_return (example template (PStr (make_function_call ''start_deep_work'' []))))"

definition deep_work_duration_step :: "pyval gen" where
  "deep_work_duration_step =
     gen_bind (choice DEEP_WORK_DURATIONS) (\<lambda>(duration_mins, duration_texts).
     gen_bind (choice duration_texts) (\<lambda>duration_text.
     gen_bind (choice deep_work_start_with_duration_templates) (\<lambda>chosen.
     gen_bind (gen_lift (py_format chosen [(''duration'', duration_text)])) (\<lambda>template.
     gen_return (example template
       (PStr (make_function_call ''start_deep_work'' [(''duration_minutes'', PInt duration_mins)])))))))"

definition deep_work_pomodoro_step :: "pyval gen" where
  "deep_work_pomodoro_step =
     gen_bind (choice deep_work_start_pomodoro_templates) (\<lambda>template.
     gen_return (example template
       (PStr (make_function_call ''start_deep_work''
          [(''duration_minutes'', PInt 25), (''pomodoro_mode'', PBool True)]))))"

definition deep_work_stop_step :: "pyval gen" where
  "deep_work_stop_step =
     gen_bind (choice deep_work_stop_templates) (\<lambda>template.
     gen_return (example template (PStr (make_function_call ''stop_deep_work'' []))))"

definition deep_work_extend_step :: "pyval gen" where
  "deep_work_extend_step =
     gen_bind (choice DEEP_WORK_DURATIONS) (\<lambda>(duration_mins, duration_texts).
     gen_bind (choice duration_texts) (\<lambda>duration_text.
     gen_bind (choice deep_work_extend_templates) (\<lambda>chosen.
     gen_bind (gen_lift (py_format chosen [(''duration'', duration_text)])) (\<lambda>template.
     gen_return (example template
       (PStr (make_function_call ''extend_deep_work'' [(''additional_minutes'', PInt duration_mins)])))))))"

definition generate_deep_work_examples :: "nat \<Rightarrow> pyval list gen" where
  "generate_deep_work_examples n =
     gen_append (gen_repeat (n div 4) deep_work_start_step)
    (gen_append (gen_repeat (n div 3) deep_work_duration_step)
    (gen_append (gen_repeat (n div 10) deep_work_pomodoro_step)
    (gen_append (gen_repeat (n div 5) deep_work_stop_step)
                (gen_repeat (n div 6) deep_work_extend_step))))"

subsection \<open>Journal entries\<close>

definition journal_content :: "string \<Rightarrow> string list" where
  "journal_content entry_type =
     (if entry_type = ''gratitude'' then GRATITUDE_CONTENT
      else if entry_type = ''mood'' then FEELINGS
      else if entry_type = ''learning'' then LEARNING_CONTENT
      else GENERAL_CONTENT)"

definition journal_title :: "string \<Rightarrow> string \<Rightarrow> string" where
  "journal_title entry_type content =
     (if entry_type = ''mood'' then ''Feeling '' @ content
      else if length content < 50 then capitalize content
      else take 47 content @ ''...'')"

definition journal_step :: "pyval gen" where
  "journal_step =
     gen_bind (choice JOURNAL_ENTRY_TYPES) (\<lambda>(entry_type, templates).
     gen_bind (choice templates) (\<lambda>chosen.
     gen_bind (choice (journal_content entry_type)) (\<lambda>content.
     gen_bind (gen_lift (py_format
        (if entry_type = ''mood'' then str_replace ''{content}'' ''{feeling}'' chosen else chosen)
        [(''content'', content), (''feeling'', content)])) (\<lambda>input_text.
     gen_return (example input_text
       (PStr (make_function_call ''create_atom''
          [(''atom_type'', PStr ''journalEntry''),
           (''title'', PStr (journal_title entry_type content)),
           (''metadata'', PDict [(''entryType'', PStr entry_type)])])))))))"

definition generate_journal_examples :: "nat \<Rightarrow> pyval list gen" where
  "generate_journal_examples n = gen_repeat n journal_step"

subsection \<open>Workout logs\<close>

definition workout_basic_step :: "pyval gen" where
  "workout_basic_step =
     gen_bind (choice WORKOUT_TYPES) (\<lambda>(workout_type, workout_texts).
     gen_bind (choice workout_texts) (\<lambda>workout_text.
     gen_bind (choice workout_workout_templates) (\<lambda>chosen.
     gen_bind (gen_lift (py_format chosen [(''workout_type'', workout_text)])) (\<lambda>template.
     gen_return (example template
       (PStr (make_function_call ''log_workout'' [(''workout_type'', PStr workout_type)])))))))"

definition workout_duration_step :: "pyval gen" where
  "workout_duration_step =
     gen_bind (choice WORKOUT_TYPES) (\<lambda>(workout_type, workout_texts).
     gen_bind (choice workout_texts) (\<lambda>workout_text.
     gen_bind (choice [15, 20, 30, 45, 60, 90]) (\<lambda>duration.
     gen_bind (choice workout_workout_with_duration_templates) (\<lambda>chosen.
     gen_bind (gen_lift (py_format chosen
        [(''workout_type'', workout_text), (''duration'', str_int duration)])) (\<lambda>template.
     gen_return (example template
       (PStr (make_function_call ''log_workout''
          [(''workout_type'', PStr workout_type), (''duration_minutes'', PInt duration)]))))))))"

definition workout_distance_step :: "pyval gen" where
  "workout_distance_step =
     gen_bind (choice [3, 5, 7, 10, 15, 21]) (\<lambda>distance.
     gen_bind (choice workout_run_with_distance_templates) (\<lambda>chosen.
     gen_bind (gen_lift (py_format chosen [(''distance'', str_int distance)])) (\<lambda>template.
     gen_return (example template
       (PStr (make_function_call ''log_workout''
          [(''workout_type'', PStr ''run''), (''distance_km'', PInt distance)]))))))"

definition workout_strength_step :: "pyval gen" where
  "workout_strength_step =
     gen_bind (choice EXERCISES) (\<lambda>exercise.
     gen_bind (choice [3, 4, 5]) (\<lambda>sets.
     gen_bind (choice [8, 10, 12, 15, 20]) (\<lambda>reps.
     gen_bind (choice workout_strength_templates) (\<lambda>chosen.
     gen_bind (gen_lift (py_format chosen
        [(''exercise'', exercise), (''sets'', str_int sets), (''reps'', str_int reps)])) (\<lambda>template.
     gen_return (example template
       (PStr (make_function_call ''log_workout''
          [(''workout_type'', PStr ''strength''), (''exercise'', PStr exercise),
           (''sets'', PInt sets), (''reps'', PInt reps)]))))))))"

definition generate_workout_examples :: "nat \<Rightarrow> pyval list gen" where
  "generate_workout_examples n =
     gen_append (gen_repeat (n div 3) workout_basic_step)
    (gen_append (gen_repeat (n div 3) workout_duration_step)
    (gen_append (gen_repeat (n div 6) workout_distance_step)
                (gen_repeat (n div 6) workout_strength_step)))"

subsection \<open>Navigation\<close>

definition navigation_step :: "pyval gen" where
  "navigation_step =
     gen_bind (choice NAVIGATION_DESTINATIONS) (\<lambda>(destination, templates).
     gen_bind (choice templates) (\<lambda>template.
     gen_return (example template
       (PStr (make_function_call ''navigate'' [(''destination'', PStr destination)])))))"

definition generate_navigation_examples :: "nat \<Rightarrow> pyval list gen" where
  "generate_navigation_examples n = gen_repeat n navigation_step"

section \<open>The assembler\<close>

text \<open>What a run of \<^verbatim>\<open>main\<close> has computed when it ends: the merged corpus, the findings
  of the validator (which \<^verbatim>\<open>main\<close> prints), the shuffled corpus and its two parts, their
  formatted envelopes, the lines written to \<^verbatim>\<open>train.jsonl\<close> and \<^verbatim>\<open>valid.jsonl\<close>, and the sample written for
  inspection.\<close>

record run =
  all_examples :: "pyval list"
  issues :: "string list"
  shuffled_examples :: "pyval list"
  train_examples :: "pyval list"
  valid_examples :: "pyval list"
  train_formatted :: "pyval list"
  valid_formatted :: "pyval list"
  train_file :: "string list"
  valid_file :: "string list"
  sample_examples :: "pyval list"

text \<open>\<^verbatim>\<open>f.write(json.dumps(ex) + "\n")\<close> for every formatted example.\<close>

definition jsonl :: "pyval list \<Rightarrow> string list" where
  "jsonl formatted = map (\<lambda>ex. json_dumps '', '' '': '' ex @ [CHR 0x0A]) formatted"

text \<open>\<^verbatim>\<open>main\<close> from the validation on, for a merged corpus and the two lists the sample
  is taken from. The findings are printed and have no other use.\<close>

definition assemble :: "pyval list \<Rightarrow> pyval list \<Rightarrow> pyval list \<Rightarrow> rng \<Rightarrow> error + run" where
  "assemble simple_examples project_examples examples g =
     (case validate_examples examples of
        Inl e \<Rightarrow> Inl e
      | Inr found \<Rightarrow>
          (case shuffle examples g of
             (shuffled, g1) \<Rightarrow>
               (let split_idx = split_index (length shuffled);
                    train = take split_idx shuffled;
                    valid = drop split_idx shuffled
                in case format_for_mlx_lm train of
                     Inl e \<Rightarrow> Inl e
                   | Inr train_msgs \<Rightarrow>
                       (case format_for_mlx_lm valid of
                          Inl e \<Rightarrow> Inl e
                        | Inr valid_msgs \<Rightarrow>
                            Inr \<lparr> all_examples = examples,
                                  issues = found,
                                  shuffled_examples = shuffled,
                                  train_examples = train,
                                  valid_examples = valid,
                                  train_formatted = train_msgs,
                                  valid_formatted = valid_msgs,
                                  train_file = jsonl train_msgs,
                                  valid_file = jsonl valid_msgs,
                                  sample_examples =
                                    fst (shuffle (take 50 simple_examples @ take 50 project_examples) g1)
                                \<rparr>))))"

text \<open>The ten generator calls of \<^verbatim>\<open>main\<close>, in its order and with its counts, and the
  concatenation \<^verbatim>\<open>all_examples\<close>, in its order.\<close>

definition generate_all :: "(pyval list \<times> pyval list \<times> pyval list) gen" where
  "generate_all =
     gen_bind (generate_simple_creation_examples 4000) (\<lambda>simple_examples.
     gen_bind (generate_project_specific_examples 2500) (\<lambda>project_examples.
     gen_bind (generate_timed_creation_examples 2000) (\<lambda>timed_examples.
     gen_bind (generate_modification_examples 1500) (\<lambda>modification_examples.
     gen_bind (generate_level_system_examples 2000) (\<lambda>level_system_examples.
     gen_bind (generate_deep_work_examples 1000) (\<lambda>deep_work_examples.
     gen_bind (generate_journal_examples 1000) (\<lambda>journal_examples.
     gen_bind (generate_workout_examples 500) (\<lambda>workout_examples.
     gen_bind (generate_navigation_examples 600) (\<lambda>navigation_examples.
     gen_bind (generate_batch_examples 500) (\<lambda>batch_examples.
     gen_return (simple_examples, project_examples,
       simple_examples @ project_examples @ timed_examples @ modification_examples
       @ level_system_examples @ deep_work_examples @ journal_examples @ workout_examples
       @ navigation_examples @ batch_examples)))))))))))"

definition main :: "rng \<Rightarrow> error + run" where
  "main g =
     (case generate_all g of
        Inl e \<Rightarrow> Inl e
      | Inr ((simple_examples, project_examples, examples), g') \<Rightarrow>
          assemble simple_examples project_examples examples g')"

section \<open>Properties of the encoder\<close>


definition is_digit :: "char \<Rightarrow> bool" where
  "is_digit c = (48 \<le> (of_char c :: nat) \<and> (of_char c :: nat) \<le> 57)"



fun strings_of :: "pyval \<Rightarrow> string list" where
  "strings_of PNone = []"
| "strings_of (PBool b) = []"
| "strings_of (PInt i) = []"
| "strings_of (PStr s) = [s]"
| "strings_of (PList vs) = concat (map strings_of vs)"
| "strings_of (PDict kvs) = concat (map (\<lambda>kv. fst kv # strings_of (snd kv)) kvs)"

definition free_of :: "char \<Rightarrow> pyval \<Rightarrow> bool" where
  "free_of c v = list_all (\<lambda>s. list_all (\<lambda>x. x \<noteq> c) s) (strings_of v)"

section \<open>Notions used in the proofs\<close>

subsection \<open>Computations that always return\<close>

definition yields :: "'a gen \<Rightarrow> ('a \<Rightarrow> bool) \<Rightarrow> bool" where
  "yields m P = (\<forall>g. \<exists>x g'. m g = Inr (x, g') \<and> P x)"

definition formats :: "string list \<Rightarrow> string \<Rightarrow> bool" where
  "formats names t = (\<not> isl (py_format t (map (\<lambda>n. (n, [])) names)))"

definition is_dict :: "pyval \<Rightarrow> bool" where
  "is_dict v = (case v of PDict d \<Rightarrow> True | _ \<Rightarrow> False)"

definition placeholder :: "string \<Rightarrow> bool" where
  "placeholder old = (old \<noteq> [] \<and> hd old = CHR ''{'')"

text \<open>Keys without a brace stay as they are, so a filled dictionary has the entries of the
  template under the same keys.\<close>

definition plain_keys :: "(string \<times> pyval) list \<Rightarrow> bool" where
  "plain_keys d = list_all (\<lambda>kv. CHR ''{'' \<notin> set (fst kv)) d"

definition call_open :: string where
  "call_open = ''<start_function_call>call:''"

definition call_close :: string where
  "call_close = ''}<end_function_call>''"

definition matches_call_grammar :: "string \<Rightarrow> bool" where
  "matches_call_grammar s =
     (let t = (if s \<noteq> [] \<and> last s = CHR 0x0A then butlast s else s);
          mid = drop (length call_open) (take (length t - length call_close) t)
      in prefix call_open t \<and> suffix call_close t
         \<and> length call_open + length call_close \<le> length t
         \<and> takeWhile is_word_char mid \<noteq> []
         \<and> prefix ''{'' (dropWhile is_word_char mid)
         \<and> CHR 0x0A \<notin> set mid)"

fun after_first :: "string \<Rightarrow> string \<Rightarrow> string option" where
  "after_first pat [] = (if pat = [] then Some [] else None)"
| "after_first pat (c # cs) =
     (if prefix pat (c # cs) then Some (drop (length pat) (c # cs)) else after_first pat cs)"

definition function_name :: "string \<Rightarrow> string option" where
  "function_name s =
     (case after_first ''call:'' s of
        None \<Rightarrow> None
      | Some r \<Rightarrow> if CHR ''{'' \<in> set r then Some (takeWhile (\<lambda>c. c \<noteq> CHR ''{'') r) else None)"

definition well_formed_call :: "string \<Rightarrow> bool" where
  "well_formed_call s =
     (matches_call_grammar s
      \<and> (case function_name s of None \<Rightarrow> False | Some f \<Rightarrow> f \<in> set valid_functions))"

definition wf_desc :: "pyval \<Rightarrow> bool" where
  "wf_desc v =
     (case v of
        PDict od \<Rightarrow>
          (case dict_get od ''filter'' of None \<Rightarrow> True | Some f \<Rightarrow> is_dict f)
          \<and> (case dict_get od ''items'' of None \<Rightarrow> True
              | Some (PList its) \<Rightarrow> list_all is_dict its
              | Some _ \<Rightarrow> False)
      | _ \<Rightarrow> False)"

definition well_encoded :: "pyval \<Rightarrow> bool" where
  "well_encoded ex = (case encoded_output ex of Inl e \<Rightarrow> False | Inr s \<Rightarrow> well_formed_call s)"

fun printable :: "char \<Rightarrow> bool" where
  "printable (Char b0 b1 b2 b3 b4 b5 b6 b7) =
     (\<not> b7 \<and> (b5 \<or> b6) \<and> \<not> (b0 \<and> b1 \<and> b2 \<and> b3 \<and> b4 \<and> b5 \<and> b6))"

definition plain_char :: "char \<Rightarrow> bool" where
  "plain_char c = (printable c \<and> c \<noteq> CHR 0x22 \<and> c \<noteq> CHR 0x5C \<and> c \<noteq> CHR ''{'' \<and> c \<noteq> CHR ''}'')"

definition plain_text :: "string \<Rightarrow> bool" where
  "plain_text s = list_all plain_char s"

definition tmpl_verb :: "pyval \<Rightarrow> string" where
  "tmpl_verb v =
     (case v of
        PDict od \<Rightarrow> (case dict_get od ''action'' of Some (PStr a) \<Rightarrow> a | _ \<Rightarrow> [])
      | _ \<Rightarrow> [])"

definition tmpl_ok :: "pyval \<Rightarrow> bool" where
  "tmpl_ok v =
     ((case v of PDict od \<Rightarrow> plain_keys od | _ \<Rightarrow> False)
      \<and> free_of (CHR 0x0A) v \<and> wf_desc v)"

definition template_ok :: "string list \<Rightarrow> string list \<Rightarrow> string \<times> pyval \<Rightarrow> bool" where
  "template_ok names verbs tp =
     (formats names (fst tp) \<and> tmpl_ok (snd tp) \<and> tmpl_verb (snd tp) \<in> set verbs)"

definition not_search :: "pyval \<Rightarrow> bool" where
  "not_search ex =
     (case subscript ex ''output'' of
        Inr (PDict od) \<Rightarrow> dict_get od ''action'' \<noteq> Some (PStr ''search'')
      | _ \<Rightarrow> True)"

definition good_reps :: "(string \<times> string) list \<Rightarrow> bool" where
  "good_reps reps = list_all (\<lambda>r. placeholder (fst r) \<and> plain_text (snd r)) reps"

definition other_verbs :: "string list" where
  "other_verbs = [''create'', ''update'', ''delete'', ''batch'']"

subsection \<open>Simple creation\<close>

definition simple_names :: "string list" where
  "simple_names = [''topic'', ''task'', ''project'', ''priority'']"


lemma digit_char_is_digit: "d < 10 \<Longrightarrow> is_digit (digit_char d)"
  by (simp add: is_digit_def digit_char_def)

lemma str_nat_digits: "list_all is_digit (str_nat n)"
proof (induction n rule: str_nat.induct)
  case (1 n)
  show ?case
  proof (cases "n < 10")
    case True
    then show ?thesis by (simp add: str_nat.simps[of n] digit_char_is_digit)
  next
    case False
    then show ?thesis using 1 by (simp add: str_nat.simps[of n] digit_char_is_digit)
  qed
qed

lemma is_digit_not_space: "is_digit c \<Longrightarrow> c \<noteq> CHR '' '' \<and> c \<noteq> CHR 0x0A \<and> c \<noteq> CHR ''-''"
  by (auto simp: is_digit_def)

lemma str_int_chars: "c \<in> set (str_int i) \<Longrightarrow> is_digit c \<or> c = CHR ''-''"
  using str_nat_digits by (auto simp: str_int_def list_all_iff split: if_splits)

lemma hex_char_code: "d < 16 \<Longrightarrow> (of_char (hex_char d) :: nat) = (if d < 10 then 48 + d else 87 + d)"
  by (simp add: hex_char_def)

lemma hex_char_alnum: "d < 16 \<Longrightarrow> hex_char d \<noteq> CHR '' '' \<and> hex_char d \<noteq> CHR 0x0A"
proof -
  assume d: "d < 16"
  have "(of_char (hex_char d) :: nat) \<ge> 48" using hex_char_code[OF d] by (simp split: if_splits)
  then show ?thesis by auto
qed


lemma json_escape_char_nl: "CHR 0x0A \<notin> set (json_escape_char c)"
  using hex_char_alnum[of "of_char c div 16"] hex_char_alnum[of "of_char c mod 16"]
  by (auto simp: json_escape_char_def less_mult_imp_div_less split: if_splits)

lemma set_join: "set (join sep ps) \<subseteq> set sep \<union> \<Union> (set ` set ps)"
  by (induction sep ps rule: join.induct) auto


lemma json_string_nl: "CHR 0x0A \<notin> set (json_string s)"
  using json_escape_char_nl by (auto simp: json_string_def)


lemma str_int_nl: "CHR 0x0A \<notin> set (str_int i)"
  using str_int_chars[of "CHR 0x0A" i] is_digit_not_space[of "CHR 0x0A"] by auto


lemma join_avoids: "c \<notin> set sep \<Longrightarrow> (\<And>p. p \<in> set ps \<Longrightarrow> c \<notin> set p) \<Longrightarrow> c \<notin> set (join sep ps)"
  by (induction sep ps rule: join.induct) auto

lemma json_dumps_nl:
  "CHR 0x0A \<notin> set isep \<Longrightarrow> CHR 0x0A \<notin> set ksep \<Longrightarrow> CHR 0x0A \<notin> set (json_dumps isep ksep v)"
proof (induction v)
  case (PList vs)
  have "CHR 0x0A \<notin> set (join isep (map (json_dumps isep ksep) vs))"
    by (rule join_avoids) (use PList in auto)
  then show ?case by simp
next
  case (PDict kvs)
  let ?f = "\<lambda>kv. json_string (fst kv) @ ksep @ json_dumps isep ksep (snd kv)"
  have one: "CHR 0x0A \<notin> set (?f kv)" if "kv \<in> set kvs" for kv
  proof -
    have "CHR 0x0A \<notin> set (json_dumps isep ksep (snd kv))"
      using PDict.IH[of kv "snd kv"] that PDict.prems by (cases kv) auto
    then show ?thesis using json_string_nl PDict.prems by auto
  qed
  have "CHR 0x0A \<notin> set (join isep (map ?f kvs))"
    by (rule join_avoids) (use PDict.prems one in auto)
  then show ?case by simp
qed (auto simp: json_string_nl str_int_nl)









lemma yieldsD: "yields m P \<Longrightarrow> \<exists>x g'. m g = Inr (x, g') \<and> P x"
  by (simp add: yields_def)

lemma yields_return: "P x \<Longrightarrow> yields (gen_return x) P"
  by (simp add: yields_def gen_return_def)

lemma yields_bind:
  assumes "yields m Q" and "\<And>x. Q x \<Longrightarrow> yields (f x) P"
  shows "yields (gen_bind m f) P"
proof (unfold yields_def, intro allI)
  fix g
  obtain x g' where m: "m g = Inr (x, g')" and q: "Q x" using yieldsD[OF assms(1)] by blast
  obtain y g'' where "f x g' = Inr (y, g'')" and "P y" using yieldsD[OF assms(2)[OF q]] by blast
  then show "\<exists>y g''. gen_bind m f g = Inr (y, g'') \<and> P y" using m by (simp add: gen_bind_def)
qed

lemma yields_weaken: "yields m P \<Longrightarrow> (\<And>x. P x \<Longrightarrow> Q x) \<Longrightarrow> yields m Q"
  by (fastforce simp: yields_def)

lemma yields_lift: "r = Inr x \<Longrightarrow> P x \<Longrightarrow> yields (gen_lift r) P"
  by (simp add: yields_def gen_lift_def)

lemma randbelow_less: "0 < n \<Longrightarrow> randbelow n g = (j, g') \<Longrightarrow> j < n"
  by (cases g) auto

lemma yields_choice: "seq \<noteq> [] \<Longrightarrow> yields (choice seq) (\<lambda>x. x \<in> set seq)"
proof (unfold yields_def, intro allI)
  fix g
  assume ne: "seq \<noteq> []"
  obtain j g' where r: "randbelow (length seq) g = (j, g')" by (cases "randbelow (length seq) g")
  then have "j < length seq" using randbelow_less[of "length seq" g j g'] ne by simp
  then show "\<exists>x g'. choice seq g = Inr (x, g') \<and> x \<in> set seq"
    using r ne by (simp add: choice_def)
qed

lemma yields_repeat:
  assumes "yields body P"
  shows "yields (gen_repeat n body) (\<lambda>xs. length xs = n \<and> list_all P xs)"
proof (unfold yields_def, intro allI)
  fix g
  show "\<exists>xs g'. gen_repeat n body g = Inr (xs, g') \<and> length xs = n \<and> list_all P xs"
  proof (induction n arbitrary: g)
    case 0
    show ?case by simp
  next
    case (Suc n)
    obtain x g1 where b: "body g = Inr (x, g1)" and p: "P x" using yieldsD[OF assms] by blast
    obtain xs g2 where "gen_repeat n body g1 = Inr (xs, g2)" "length xs = n" "list_all P xs"
      using Suc.IH by blast
    then show ?case using b p by simp
  qed
qed

lemma yields_append:
  assumes "yields m1 (\<lambda>xs. length xs = a \<and> list_all P xs)"
      and "yields m2 (\<lambda>xs. length xs = b \<and> list_all P xs)"
  shows "yields (gen_append m1 m2) (\<lambda>xs. length xs = a + b \<and> list_all P xs)"
  unfolding gen_append_def
  by (rule yields_bind[OF assms(1)], rule yields_bind[OF assms(2)], rule yields_return) simp

subsection \<open>Shuffling permutes\<close>

lemma shuffle_from_mset:
  "i < length x \<Longrightarrow> shuffle_from i x g = (y, g') \<Longrightarrow> mset y = mset x"
proof (induction i arbitrary: x g)
  case 0
  then show ?case by simp
next
  case (Suc i)
  obtain j g1 where r: "randbelow (Suc (Suc i)) g = (j, g1)" by (cases "randbelow (Suc (Suc i)) g")
  then have j: "j < Suc (Suc i)" using randbelow_less[of "Suc (Suc i)" g j g1] by simp
  let ?x = "x[Suc i := x ! j, j := x ! Suc i]"
  have "shuffle_from i ?x g1 = (y, g')" using Suc.prems(2) r by simp
  moreover have "i < length ?x" using Suc.prems(1) by simp
  ultimately have "mset y = mset ?x" by (rule Suc.IH[rotated])
  moreover have "mset ?x = mset x"
    using Suc.prems(1) j by (intro mset_swap) auto
  ultimately show ?case by simp
qed

lemma shuffle_mset: "shuffle x g = (y, g') \<Longrightarrow> mset y = mset x"
proof (cases "x = []")
  case True
  then show "shuffle x g = (y, g') \<Longrightarrow> mset y = mset x" by (simp add: shuffle_def)
next
  case False
  assume "shuffle x g = (y, g')"
  then show "mset y = mset x"
    using False by (intro shuffle_from_mset[of "length x - 1" x g y g']) (auto simp: shuffle_def)
qed

lemma shuffle_length: "shuffle x g = (y, g') \<Longrightarrow> length y = length x"
  using shuffle_mset[of x g y g'] by (metis size_mset)

lemma shuffle_set: "shuffle x g = (y, g') \<Longrightarrow> set y = set x"
  using shuffle_mset[of x g y g'] by (metis set_mset_mset)

subsection \<open>Characters that do not occur in a value\<close>

lemma free_of_simps [simp]:
  "free_of c PNone" "free_of c (PBool b)" "free_of c (PInt i)"
  "free_of c (PStr s) = (c \<notin> set s)"
  "free_of c (PList []) " "free_of c (PList (v # vs)) = (free_of c v \<and> free_of c (PList vs))"
  "free_of c (PDict [])"
  "free_of c (PDict ((k, v) # kvs)) = (c \<notin> set k \<and> free_of c v \<and> free_of c (PDict kvs))"
  by (fastforce simp: free_of_def list_all_iff)+

lemma free_of_PList: "free_of c (PList vs) = list_all (free_of c) vs"
  by (induction vs) auto

lemma free_of_PDict: "free_of c (PDict kvs) = list_all (\<lambda>kv. c \<notin> set (fst kv) \<and> free_of c (snd kv)) kvs"
  by (induction kvs) auto

lemma free_of_dict_get:
  "free_of c (PDict d) \<Longrightarrow> dict_get d k = Some v \<Longrightarrow> free_of c v"
  by (induction d) (auto simp: dict_get_def split: if_splits)

lemma free_of_dict_set:
  "free_of c (PDict d) \<Longrightarrow> c \<notin> set k \<Longrightarrow> free_of c v \<Longrightarrow> free_of c (PDict (dict_set d k v))"
  by (induction d) auto

lemma free_of_get_default:
  "free_of c (PDict d) \<Longrightarrow> free_of c dflt \<Longrightarrow> free_of c (get_default d k dflt)"
  by (auto simp: get_default_def dest: free_of_dict_get split: option.splits)

lemma free_of_copy_if_present:
  "free_of c (PDict d) \<Longrightarrow> free_of c (PDict params) \<Longrightarrow> c \<notin> set k
   \<Longrightarrow> free_of c (PDict (copy_if_present d k params))"
  by (auto simp: copy_if_present_def intro: free_of_dict_set dest: free_of_dict_get split: option.splits)

lemma free_of_flatten_filter:
  "free_of c (PDict flt) \<Longrightarrow> free_of c (PDict params) \<Longrightarrow> free_of c (PDict (flatten_filter flt params))"
  by (induction flt params rule: flatten_filter.induct) (auto intro: free_of_dict_set)

subsection \<open>Replacement\<close>

lemma replace_from_plain:
  "old \<noteq> [] \<Longrightarrow> hd old \<notin> set s \<Longrightarrow> replace_from old new 0 s = s"
proof (induction s)
  case Nil
  show ?case by simp
next
  case (Cons c cs)
  have "\<not> prefix old (c # cs)"
  proof
    assume "prefix old (c # cs)"
    then have "hd old = c" using Cons.prems(1) by (cases old) auto
    then show False using Cons.prems(2) by simp
  qed
  then show ?case using Cons by simp
qed

lemma set_replace_from: "set (replace_from old new k s) \<subseteq> set s \<union> set new"
  by (induction old new k s rule: replace_from.induct) auto

lemma str_replace_plain: "placeholder old \<Longrightarrow> CHR ''{'' \<notin> set s \<Longrightarrow> str_replace old new s = s"
  by (simp add: str_replace_def placeholder_def replace_from_plain)

lemma replace_all_plain:
  "list_all (\<lambda>r. placeholder (fst r)) reps \<Longrightarrow> CHR ''{'' \<notin> set s \<Longrightarrow> replace_all reps s = s"
  by (induction reps s rule: replace_all.induct) (auto simp: str_replace_plain)

lemma replace_all_avoids:
  "list_all (\<lambda>r. c \<notin> set (snd r)) reps \<Longrightarrow> c \<notin> set s \<Longrightarrow> c \<notin> set (replace_all reps s)"
proof (induction reps s rule: replace_all.induct)
  case (1 s)
  then show ?case by simp
next
  case (2 old new reps s)
  have "c \<notin> set (str_replace old new s)"
    using set_replace_from[of old new 0 s] 2(2,3) by (auto simp: str_replace_def)
  then show ?case using 2 by simp
qed

subsection \<open>Filling a template\<close>

lemma fill_free_of:
  "list_all (\<lambda>r. c \<notin> set (snd r)) reps \<Longrightarrow> free_of c v \<Longrightarrow> free_of c (fill reps v)"
proof (induction v)
  case (PList vs)
  then show ?case by (auto simp: free_of_PList list_all_iff)
next
  case (PDict kvs)
  have "c \<notin> set (replace_all reps (fst kv)) \<and> free_of c (fill reps (snd kv))" if "kv \<in> set kvs" for kv
  proof -
    have "c \<notin> set (fst kv)" "free_of c (snd kv)"
      using PDict.prems(2) that by (auto simp: free_of_PDict list_all_iff)
    then show ?thesis
      using PDict.IH[of kv "snd kv"] that PDict.prems(1) replace_all_avoids[of c reps "fst kv"]
      by (cases kv) auto
  qed
  then show ?case by (auto simp: free_of_PDict list_all_iff)
qed (auto simp: replace_all_avoids)

lemma fill_PDict_plain:
  assumes "list_all (\<lambda>r. placeholder (fst r)) reps" "plain_keys d"
  shows "fill reps (PDict d) = PDict (map (\<lambda>kv. (fst kv, fill reps (snd kv))) d)"
  using assms by (auto simp: plain_keys_def list_all_iff replace_all_plain)

lemma dict_get_map_snd:
  "dict_get (map (\<lambda>kv. (fst kv, f (snd kv))) d) k = map_option f (dict_get d k)"
  by (induction d) (auto simp: dict_get_def)

lemma is_dict_fill [simp]: "is_dict (fill reps v) = is_dict v"
  by (cases v) (auto simp: is_dict_def)

subsection \<open>Formatting\<close>

lemma format_from_keys:
  "format_from st t kw = Inr s \<Longrightarrow> (\<forall>n. map_of kw n \<noteq> None \<longrightarrow> map_of kw' n \<noteq> None)
   \<Longrightarrow> \<exists>s'. format_from st t kw' = Inr s'"
proof (induction st t kw arbitrary: s rule: format_from.induct)
  case (4 c cs kwargs)
  then show ?case by (fastforce split: if_splits sum.splits)
next
  case (5 c cs kwargs)
  then show ?case by (fastforce split: if_splits sum.splits)
next
  case (6 name c cs kwargs)
  show ?case
  proof (cases "c = CHR ''}''")
    case True
    with 6(4) obtain v rest where ne: "name \<noteq> []" and v: "map_of kwargs name = Some v"
      and r: "format_from Literal cs kwargs = Inr rest"
      by (auto split: if_splits option.splits sum.splits)
    obtain v' where v': "map_of kw' name = Some v'" using v 6(5) by fastforce
    obtain rest' where "format_from Literal cs kw' = Inr rest'"
      using 6(1)[OF True ne v r 6(5)] by blast
    then show ?thesis using True ne v' by simp
  next
    case False
    note nc = False
    show ?thesis
    proof (cases "c = CHR ''{''")
      case True
      with 6(4) nc obtain rest where e: "name = []" and r: "format_from Literal cs kwargs = Inr rest"
        by (auto split: if_splits sum.splits)
      obtain rest' where "format_from Literal cs kw' = Inr rest'"
        using 6(2)[OF nc True e r 6(5)] by blast
      then show ?thesis using True nc e by simp
    next
      case False
      then have "format_from (Field (name @ [c])) cs kwargs = Inr s" using 6(4) nc by simp
      then obtain s' where "format_from (Field (name @ [c])) cs kw' = Inr s'"
        using 6(3)[OF nc False _ 6(5)] by blast
      then show ?thesis using False nc by simp
    qed
  qed
qed auto

lemma formats_ok:
  assumes "formats names t" "set names \<subseteq> fst ` set kw"
  shows "\<exists>s. py_format t kw = Inr s"
proof -
  let ?d = "map (\<lambda>n. (n, [])) names"
  obtain s0 where "format_from Literal t ?d = Inr s0"
    using assms(1) by (cases "py_format t ?d") (auto simp: formats_def py_format_def)
  moreover have "\<forall>n. map_of ?d n \<noteq> None \<longrightarrow> map_of kw n \<noteq> None"
  proof (intro allI impI)
    fix n assume "map_of ?d n \<noteq> None"
    then have "n \<in> set names" by (auto simp: map_of_eq_None_iff image_iff)
    then have "n \<in> fst ` set kw" using assms(2) by blast
    then show "map_of kw n \<noteq> None" by (simp add: map_of_eq_None_iff)
  qed
  ultimately show ?thesis unfolding py_format_def by (rule format_from_keys)
qed

lemma valid_functions_words:
  "list_all (\<lambda>f. f \<noteq> [] \<and> list_all is_word_char f) valid_functions"
  by (simp add: valid_functions_def is_word_char_def)

lemma word_char_not_special: "is_word_char c \<Longrightarrow> c \<noteq> CHR 0x0A \<and> c \<noteq> CHR ''{''"
  by (auto simp: is_word_char_def)

lemma takeWhile_words: "list_all is_word_char f \<Longrightarrow> takeWhile is_word_char (f @ CHR ''{'' # r) = f"
  by (induction f) (auto simp: is_word_char_def)

lemma dropWhile_words: "list_all is_word_char f \<Longrightarrow> dropWhile is_word_char (f @ CHR ''{'' # r) = CHR ''{'' # r"
  by (induction f) (auto simp: is_word_char_def)

lemma takeWhile_to_brace: "list_all is_word_char f \<Longrightarrow> takeWhile (\<lambda>c. c \<noteq> CHR ''{'') (f @ CHR ''{'' # r) = f"
  by (induction f) (auto dest: word_char_not_special)

lemma after_first_call_open: "after_first ''call:'' (call_open @ r) = Some r"
  by (simp add: call_open_def)

lemma matches_call_grammarI:
  assumes "f \<noteq> []" "list_all is_word_char f" "CHR 0x0A \<notin> set body"
  shows "matches_call_grammar (call_open @ f @ ''{'' @ body @ call_close)"
proof -
  let ?s = "call_open @ f @ ''{'' @ body @ call_close"
  have l: "last ?s = CHR ''>''" by (simp add: call_close_def)
  have t: "take (length ?s - length call_close) ?s = call_open @ f @ ''{'' @ body" by simp
  have m: "drop (length call_open) (take (length ?s - length call_close) ?s) = f @ CHR ''{'' # body"
    unfolding t by simp
  have s: "suffix call_close ?s"
    by (metis append.assoc suffixI)
  have nl: "CHR 0x0A \<notin> set (f @ CHR ''{'' # body)"
    using assms(2,3) by (auto simp: list_all_iff dest: word_char_not_special)
  show ?thesis
    unfolding matches_call_grammar_def Let_def
    using l s assms(1,2) nl
    by (simp only: m) (simp add: takeWhile_words dropWhile_words)
qed

lemma function_name_call:
  assumes "list_all is_word_char f"
  shows "function_name (call_open @ f @ ''{'' @ r) = Some f"
  using assms by (simp add: function_name_def after_first_call_open takeWhile_to_brace)

lemma make_function_call_shape:
  "make_function_call f params = call_open @ f @ ''{'' @ join '','' (map param_part params) @ call_close"
  by (simp add: make_function_call_def call_open_def call_close_def)

lemma escape_nl: "free_of (CHR 0x0A) v \<Longrightarrow> CHR 0x0A \<notin> set (escape v)"
  by (cases v) (auto simp: json_dumps_nl str_int_nl simp del: json_dumps.simps)

lemma params_nl:
  assumes "free_of (CHR 0x0A) (PDict params)"
  shows "CHR 0x0A \<notin> set (join '','' (map param_part params))"
proof (rule join_avoids)
  show "CHR 0x0A \<notin> set '',''" by simp
next
  fix p assume "p \<in> set (map param_part params)"
  then obtain kv where kv: "kv \<in> set params" and p: "p = param_part kv" by auto
  have "CHR 0x0A \<notin> set (fst kv)" "free_of (CHR 0x0A) (snd kv)"
    using assms kv by (auto simp: free_of_PDict list_all_iff)
  then show "CHR 0x0A \<notin> set p" using escape_nl[of "snd kv"] by (simp add: p param_part_def)
qed

lemma well_formed_make_function_call:
  assumes "f \<in> set valid_functions" "free_of (CHR 0x0A) (PDict params)"
  shows "well_formed_call (make_function_call f params)"
proof -
  have w: "f \<noteq> []" "list_all is_word_char f"
    using assms(1) valid_functions_words by (auto simp: list_all_iff)
  have "matches_call_grammar (make_function_call f params)"
    unfolding make_function_call_shape
    by (rule matches_call_grammarI[OF w params_nl[OF assms(2)]])
  moreover have "function_name (make_function_call f params) = Some f"
    unfolding make_function_call_shape by (rule function_name_call[OF w(2)])
  ultimately show ?thesis using assms(1) by (simp add: well_formed_call_def)
qed

lemma search_params_ok:
  assumes "wf_desc (PDict od)" "free_of (CHR 0x0A) (PDict od)"
  shows "\<exists>params. search_params od = Inr params \<and> free_of (CHR 0x0A) (PDict params)"
proof -
  let ?p1 = "copy_if_present od ''query'' []"
  let ?p2 = "case dict_get od ''type'' of None \<Rightarrow> ?p1 | Some ty \<Rightarrow> dict_set ?p1 ''types'' (PList [ty])"
  have p1: "free_of (CHR 0x0A) (PDict ?p1)"
    by (rule free_of_copy_if_present[OF assms(2)]) simp_all
  have p2: "free_of (CHR 0x0A) (PDict ?p2)"
    using p1 assms(2) by (auto split: option.splits intro!: free_of_dict_set dest: free_of_dict_get)
  have fin: "free_of (CHR 0x0A) (PDict (copy_if_present od ''target'' (copy_if_present od ''mode'' q)))"
    if "free_of (CHR 0x0A) (PDict q)" for q
    using that assms(2) by (intro free_of_copy_if_present) simp_all
  show ?thesis
  proof (cases "dict_get od ''filter''")
    case None
    then show ?thesis using fin[OF p2] by (simp add: search_params_def Let_def)
  next
    case (Some f)
    then obtain flt where f: "f = PDict flt" using assms(1) by (cases f) (auto simp: wf_desc_def is_dict_def)
    have "free_of (CHR 0x0A) (PDict flt)" using free_of_dict_get[OF assms(2) Some] f by simp
    then have "free_of (CHR 0x0A) (PDict (flatten_filter flt ?p2))"
      using p2 by (rule free_of_flatten_filter)
    then show ?thesis using fin Some f by (simp add: search_params_def Let_def)
  qed
qed

lemma batch_items_ok:
  "list_all is_dict its \<Longrightarrow> free_of (CHR 0x0A) (PList its)
   \<Longrightarrow> \<exists>items. batch_items its = Inr items \<and> free_of (CHR 0x0A) (PList items)"
proof (induction its)
  case Nil
  then show ?case by simp
next
  case (Cons it its)
  obtain item where it: "it = PDict item" using Cons.prems(1) by (cases it) (auto simp: is_dict_def)
  have fi: "free_of (CHR 0x0A) (PDict item)" using Cons.prems(2) it by simp
  have "free_of (CHR 0x0A) (PDict (copy_if_present item ''links''
       [(''atom_type'', get_default item ''type'' (PStr ''task'')),
        (''title'', get_default item ''title'' (PStr ''Untitled''))]))"
    using fi by (intro free_of_copy_if_present) (simp_all add: free_of_get_default)
  moreover obtain items where "batch_items its = Inr items" "free_of (CHR 0x0A) (PList items)"
    using Cons by auto
  ultimately show ?case using it by simp
qed

lemma legacy_path_well_formed:
  assumes "wf_desc v" "free_of (CHR 0x0A) v"
  shows "\<exists>s. make_function_call_from_dict v = Inr s \<and> well_formed_call s"
proof -
  obtain od where v: "v = PDict od" using assms(1) by (cases v) (auto simp: wf_desc_def)
  have f: "free_of (CHR 0x0A) (PDict od)" using assms(2) v by simp
  have wf: "\<And>name params. name \<in> set valid_functions \<Longrightarrow> free_of (CHR 0x0A) (PDict params)
      \<Longrightarrow> well_formed_call (make_function_call name params)"
    by (rule well_formed_make_function_call)
  have vf: "''create_atom'' \<in> set valid_functions" "''update_atom'' \<in> set valid_functions"
    "''delete_atom'' \<in> set valid_functions" "''search_atoms'' \<in> set valid_functions"
    "''batch_create'' \<in> set valid_functions" "''navigate'' \<in> set valid_functions"
    by (simp_all add: valid_functions_def)
  consider (create) "dict_get od ''action'' = Some (PStr ''create'')"
    | (update) "dict_get od ''action'' = Some (PStr ''update'')"
    | (delete) "dict_get od ''action'' = Some (PStr ''delete'')"
    | (search) "dict_get od ''action'' = Some (PStr ''search'')"
    | (batch) "dict_get od ''action'' = Some (PStr ''batch'')"
    | (navigate) "dict_get od ''action'' = Some (PStr ''navigate'')"
    | (other) "dict_get od ''action'' \<notin> Some ` PStr ` {''create'', ''update'', ''delete'', ''search'', ''batch'', ''navigate''}"
    by blast
  then show ?thesis
  proof cases
    case create
    have "free_of (CHR 0x0A) (PDict (copy_if_present od ''links'' (copy_if_present od ''metadata''
        (copy_if_present od ''body''
          [(''atom_type'', get_default od ''type'' (PStr ''idea'')),
           (''title'', get_default od ''title'' (PStr ''Untitled''))]))))"
      using f by (intro free_of_copy_if_present) (simp_all add: free_of_get_default)
    then show ?thesis using create v wf[OF vf(1)] by (simp add: make_function_call_from_dict_def)
  next
    case update
    have "free_of (CHR 0x0A) (PDict (copy_if_present od ''links'' (copy_if_present od ''metadata''
        (copy_if_present od ''body'' (copy_if_present od ''title''
          [(''target'', get_default od ''target'' (PStr ''context''))])))))"
      using f by (intro free_of_copy_if_present) (simp_all add: free_of_get_default)
    then show ?thesis using update v wf[OF vf(2)] by (simp add: make_function_call_from_dict_def)
  next
    case delete
    have "free_of (CHR 0x0A) (PDict [(''target'', get_default od ''target'' (PStr ''context''))])"
      using f by (simp add: free_of_get_default)
    then show ?thesis using delete v wf[OF vf(3)] by (simp add: make_function_call_from_dict_def)
  next
    case search
    obtain params where "search_params od = Inr params" "free_of (CHR 0x0A) (PDict params)"
      using search_params_ok[OF assms(1)[unfolded v] f] by blast
    then show ?thesis using search v wf[OF vf(4)] by (simp add: make_function_call_from_dict_def)
  next
    case batch
    obtain its where its: "py_iter (get_default od ''items'' (PList [])) = Inr its"
      "list_all is_dict its" "free_of (CHR 0x0A) (PList its)"
    proof (cases "dict_get od ''items''")
      case None
      then show ?thesis using that[of "[]"] by (simp add: get_default_def)
    next
      case (Some x)
      then obtain l where x: "x = PList l" "list_all is_dict l"
        using assms(1) v by (cases x) (auto simp: wf_desc_def split: option.splits)
      have "free_of (CHR 0x0A) (PList l)" using free_of_dict_get[OF f Some] x by simp
      then show ?thesis using that[of l] Some x by (simp add: get_default_def)
    qed
    obtain items where "batch_items its = Inr items" "free_of (CHR 0x0A) (PList items)"
      using batch_items_ok[OF its(2,3)] by blast
    then show ?thesis using batch v its(1) wf[OF vf(5), of "[(''items'', PList items)]"]
      by (simp add: make_function_call_from_dict_def)
  next
    case navigate
    have "free_of (CHR 0x0A) (PDict [(''destination'', get_default od ''destination'' (PStr ''home''))])"
      using f by (simp add: free_of_get_default)
    then show ?thesis using navigate v wf[OF vf(6)] by (simp add: make_function_call_from_dict_def)
  next
    case other
    have "free_of (CHR 0x0A) (PDict [(''atom_type'', PStr ''idea''), (''title'', PStr ''Unknown'')])"
      by simp
    then show ?thesis using other v wf[OF vf(1)] by (auto simp: make_function_call_from_dict_def)
  qed
qed

lemma well_encoded_legacy:
  "wf_desc v \<Longrightarrow> free_of (CHR 0x0A) v \<Longrightarrow> well_encoded (example i v)"
  using legacy_path_well_formed[of v]
  by (cases v) (auto simp: well_encoded_def encoded_output_def example_def subscript_def dict_get_def wf_desc_def)

lemma well_encoded_call:
  "f \<in> set valid_functions \<Longrightarrow> free_of (CHR 0x0A) (PDict params)
   \<Longrightarrow> well_encoded (example i (PStr (make_function_call f params)))"
  using well_formed_make_function_call[of f params]
  by (simp add: well_encoded_def encoded_output_def example_def subscript_def dict_get_def)

lemma plain_char_nl: "plain_char c \<Longrightarrow> c \<noteq> CHR 0x0A"
  by (auto simp: plain_char_def)

lemma plain_text_nl: "plain_text s \<Longrightarrow> CHR 0x0A \<notin> set s"
  using plain_char_nl by (auto simp: plain_text_def list_all_iff)

lemma plain_char_brace: "plain_char c \<Longrightarrow> c \<noteq> CHR ''{''"
  by (simp add: plain_char_def)

lemma plain_text_brace: "plain_text s \<Longrightarrow> CHR ''{'' \<notin> set s"
  using plain_char_brace by (auto simp: plain_text_def list_all_iff)

lemma good_reps_placeholder: "good_reps reps \<Longrightarrow> list_all (\<lambda>r. placeholder (fst r)) reps"
  by (auto simp: good_reps_def list_all_iff)

lemma good_reps_nl: "good_reps reps \<Longrightarrow> list_all (\<lambda>r. CHR 0x0A \<notin> set (snd r)) reps"
  by (auto simp: good_reps_def list_all_iff dest: plain_text_nl)

lemma fill_wf_desc:
  assumes "good_reps reps" "tmpl_ok v"
  shows "wf_desc (fill reps v)"
proof -
  obtain od where v: "v = PDict od" and pk: "plain_keys od"
    using assms(2) by (cases v) (auto simp: tmpl_ok_def)
  have w: "wf_desc (PDict od)" using assms(2) v by (simp add: tmpl_ok_def)
  have e: "fill reps v = PDict (map (\<lambda>kv. (fst kv, fill reps (snd kv))) od)"
    unfolding v by (rule fill_PDict_plain[OF good_reps_placeholder[OF assms(1)] pk])
  have f: "case map_option (fill reps) (dict_get od ''filter'') of None \<Rightarrow> True | Some f \<Rightarrow> is_dict f"
    using w by (auto simp: wf_desc_def split: option.splits)
  have i: "case map_option (fill reps) (dict_get od ''items'') of None \<Rightarrow> True
           | Some (PList its) \<Rightarrow> list_all is_dict its | Some _ \<Rightarrow> False"
    using w by (auto simp: wf_desc_def list_all_iff split: option.splits pyval.splits)
  show ?thesis unfolding e using f i by (simp add: wf_desc_def dict_get_map_snd)
qed

lemma fill_verb:
  assumes "good_reps reps" "tmpl_ok v" "tmpl_verb v = a" "a \<noteq> []" "CHR ''{'' \<notin> set a"
  shows "\<exists>od. fill reps v = PDict od \<and> dict_get od ''action'' = Some (PStr a)"
proof -
  obtain od where v: "v = PDict od" and pk: "plain_keys od"
    using assms(2) by (cases v) (auto simp: tmpl_ok_def)
  have e: "fill reps v = PDict (map (\<lambda>kv. (fst kv, fill reps (snd kv))) od)"
    unfolding v by (rule fill_PDict_plain[OF good_reps_placeholder[OF assms(1)] pk])
  have "dict_get od ''action'' = Some (PStr a)"
    using assms(3,4) v by (auto simp: tmpl_verb_def split: option.splits pyval.splits)
  moreover have "replace_all reps a = a"
    by (rule replace_all_plain[OF good_reps_placeholder[OF assms(1)] assms(5)])
  ultimately show ?thesis unfolding e by (simp add: dict_get_map_snd)
qed

lemma filled_example_ok:
  assumes "template_ok names other_verbs (t, v)" "good_reps reps"
  shows "well_encoded (example i (fill reps v)) \<and> not_search (example i (fill reps v))"
proof -
  have ok: "tmpl_ok v" and verb: "tmpl_verb v \<in> set other_verbs"
    using assms(1) by (simp_all add: template_ok_def)
  have "wf_desc (fill reps v)" by (rule fill_wf_desc[OF assms(2) ok])
  moreover have "free_of (CHR 0x0A) (fill reps v)"
    using ok by (intro fill_free_of[OF good_reps_nl[OF assms(2)]]) (simp add: tmpl_ok_def)
  ultimately have 1: "well_encoded (example i (fill reps v))" by (rule well_encoded_legacy)
  have "tmpl_verb v \<noteq> []" "CHR ''{'' \<notin> set (tmpl_verb v)" "tmpl_verb v \<noteq> ''search''"
    using verb by (auto simp: other_verbs_def)
  then obtain od where "fill reps v = PDict od" "dict_get od ''action'' = Some (PStr (tmpl_verb v))"
    and "tmpl_verb v \<noteq> ''search''"
    using fill_verb[OF assms(2) ok refl] by blast
  then have 2: "not_search (example i (fill reps v))"
    by (simp add: not_search_def example_def subscript_def dict_get_def)
  from 1 2 show ?thesis ..
qed

subsection \<open>Rules for steps\<close>

lemma yields_case_prod:
  "(\<And>a b. x = (a, b) \<Longrightarrow> yields (f a b) P) \<Longrightarrow> yields (case x of (a, b) \<Rightarrow> f a b) P"
  by (cases x) simp

lemma yields_if:
  "(c \<Longrightarrow> yields m1 P) \<Longrightarrow> (\<not> c \<Longrightarrow> yields m2 P) \<Longrightarrow> yields (if c then m1 else m2) P"
  by simp

lemma yields_format:
  assumes "formats names t" "set names \<subseteq> fst ` set kw" "\<And>s. yields (f s) P"
  shows "yields (gen_bind (gen_lift (py_format t kw)) f) P"
proof -
  obtain s where "py_format t kw = Inr s" using formats_ok[OF assms(1,2)] by blast
  then have "yields (gen_lift (py_format t kw)) (\<lambda>x. True)" by (auto intro: yields_lift)
  then show ?thesis by (rule yields_bind) (rule assms(3))
qed

lemma list_all_repeated: "list_all P xs \<Longrightarrow> list_all P (repeated xs k)"
  by (induction k) (auto simp: repeated_def)

lemma list_all_appendI: "list_all P xs \<Longrightarrow> list_all P ys \<Longrightarrow> list_all P (xs @ ys)"
  by simp

lemma repeated_nonempty: "xs \<noteq> [] \<Longrightarrow> 0 < k \<Longrightarrow> repeated xs k \<noteq> []"
  by (cases k) (auto simp: repeated_def)

lemma simple_creation_templates_ok:
  "list_all (template_ok simple_names other_verbs) simple_creation_all_templates"
  unfolding simple_creation_all_templates_def
  by (intro list_all_appendI list_all_repeated; code_simp)

lemma vocabulary_plain_1:
  "list_all plain_text TOPICS" "list_all plain_text TASKS" "list_all plain_text PROJECTS"
  "list_all plain_text PRIORITIES"
  by code_simp+

lemma vocabulary_nonempty_1:
  "TOPICS \<noteq> []" "TASKS \<noteq> []" "PROJECTS \<noteq> []" "PRIORITIES \<noteq> []"
  by (simp_all add: TOPICS_def TASKS_def PROJECTS_def PRIORITIES_def)

lemma simple_creation_all_templates_nonempty: "simple_creation_all_templates \<noteq> []"
  by (simp add: simple_creation_all_templates_def simple_creation_task_priority_templates_def)

lemma simple_creation_step_ok:
  "yields simple_creation_step (\<lambda>e. well_encoded e \<and> not_search e)"
  unfolding simple_creation_step_def
proof (intro yields_bind[OF yields_choice] yields_case_prod yields_format[where names = simple_names]
    yields_return, goal_cases)
  case 1 show ?case by (rule simple_creation_all_templates_nonempty)
next
  case 2 show ?case by (rule vocabulary_nonempty_1)
next
  case 3 show ?case by (rule vocabulary_nonempty_1)
next
  case 4 show ?case by (rule vocabulary_nonempty_1)
next
  case 5 show ?case by (rule vocabulary_nonempty_1)
next
  case (6 x t v topic task project priority)
  then show ?case using simple_creation_templates_ok by (auto simp: list_all_iff template_ok_def)
next
  case 7 show ?case by (simp add: simple_names_def)
next
  case (8 x t v topic task project priority s)
  have "template_ok simple_names other_verbs (t, v)"
    using 8(1,2) simple_creation_templates_ok by (auto simp: list_all_iff)
  moreover have "good_reps [(''{topic}'', topic), (''{task}'', task), (''{project}'', project),
              (''{priority}'', priority)]"
    using 8(3-6) vocabulary_plain_1 by (auto simp: good_reps_def placeholder_def list_all_iff)
  ultimately show ?case by (rule filled_example_ok)
qed

lemma round_to_53_cases:
  assumes "n < 2 ^ 106"
  obtains (exact) "round_to_53 n = n"
  | (rounded) s q where "0 < s" "s \<le> 53" "2 ^ (s + 52) \<le> n" "round_to_53 n = q * 2 ^ s"
      "n div 2 ^ s \<le> q" "q \<le> n div 2 ^ s + 1"
proof (cases "floorlog 2 n \<le> 53")
  case True
  then have "round_to_53 n = n" by (simp add: round_to_53_def)
  then show ?thesis by (rule exact)
next
  case False
  define s where "s = floorlog 2 n - 53"
  define q where "q = (if 2 ^ (s - 1) < n mod 2 ^ s \<or> (n mod 2 ^ s = 2 ^ (s - 1) \<and> odd (n div 2 ^ s))
                        then n div 2 ^ s + 1 else n div 2 ^ s)"
  have s0: "0 < s" using False by (simp add: s_def)
  have npos: "0 < n" using False by (cases "n = 0") (auto simp: floorlog_def)
  have "floorlog 2 n \<le> 106" using assms by (intro floorlog_leI) auto
  then have s53: "s \<le> 53" by (simp add: s_def)
  have "(2::nat) ^ (floorlog 2 n - 1) \<le> n" using floorlog_bounds[of n 2] npos by simp
  moreover have "floorlog 2 n - 1 = s + 52" using False by (simp add: s_def)
  ultimately have lo: "2 ^ (s + 52) \<le> n" by simp
  have r: "round_to_53 n = q * 2 ^ s"
    using False by (simp add: round_to_53_def Let_def s_def q_def)
  have "n div 2 ^ s \<le> q" "q \<le> n div 2 ^ s + 1" by (auto simp: q_def)
  with s0 s53 lo r show ?thesis by (intro rounded)
qed

lemma mantissa_0_9_times_10: "10 * mantissa_0_9 = 9 * 2 ^ 53 + 2"
  by (simp add: mantissa_0_9_def)

lemma split_index_exact:
  assumes T: "len < 2 ^ 48"
  shows "split_index len = 9 * len div 10"
proof -
  define n where "n = len * mantissa_0_9"
  define k where "k = 9 * len div 10"
  define P :: nat where "P = 2 ^ 53"
  have P: "P = 9007199254740992" by (simp add: P_def)
  have T': "len < 281474976710656" using T by simp
  have ten_n: "10 * n = 9 * len * P + 2 * len"
    using mantissa_0_9_times_10 by (simp add: n_def P_def algebra_simps)
  have k1: "10 * k \<le> 9 * len" and k2: "9 * len + 1 \<le> 10 * (k + 1)"
    unfolding k_def by arith+
  have nlt: "n < 2 ^ 106"
  proof -
    have "n < 2 ^ 48 * 2 ^ 53" unfolding n_def
      by (intro mult_strict_mono') (use T in \<open>auto simp: mantissa_0_9_def\<close>)
    also have "\<dots> \<le> (2::nat) ^ 106" by (simp flip: power_add)
    finally show ?thesis .
  qed
  have klo: "k * P \<le> n"
  proof -
    have "10 * (k * P) \<le> 9 * len * P" using k1 by (simp add: P)
    then show ?thesis using ten_n by linarith
  qed
  from nlt have bounds: "k * P \<le> round_to_53 n \<and> round_to_53 n < (k + 1) * P"
  proof (cases rule: round_to_53_cases)
    case exact
    have "10 * n < 10 * ((k + 1) * P)"
    proof -
      have "10 * n < (9 * len + 1) * P" using ten_n T' by (simp add: P)
      also have "\<dots> \<le> (10 * (k + 1)) * P" using k2 by (intro mult_le_mono1)
      finally show ?thesis by (simp add: algebra_simps)
    qed
    then show ?thesis using exact klo by simp
  next
    case (rounded s q)
    define p :: nat where "p = 2 ^ s"
    have pP: "P = 2 ^ (53 - s) * p" using rounded(2) by (simp add: P_def p_def flip: power_add)
    have ppos: "0 < p" by (simp add: p_def)
    have "k * 2 ^ (53 - s) \<le> n div p"
    proof -
      have "(k * 2 ^ (53 - s)) * p \<le> n" using klo pP by (simp add: algebra_simps)
      then show ?thesis using ppos by (simp add: less_eq_div_iff_mult_less_eq)
    qed
    then have "k * 2 ^ (53 - s) \<le> q" using rounded(5) by (simp add: p_def)
    then have "(k * 2 ^ (53 - s)) * p \<le> q * p" by (rule mult_le_mono1)
    then have lower: "k * P \<le> round_to_53 n" using rounded(4) pP by (simp add: p_def algebra_simps)
    have "q \<le> n div p + 1" using rounded(6) by (simp add: p_def)
    then have "q * p \<le> (n div p + 1) * p" by (rule mult_le_mono1)
    also have "\<dots> = (n div p) * p + p" by (simp add: algebra_simps)
    also have "\<dots> \<le> n + p" by simp
    finally have rn: "round_to_53 n \<le> n + p" using rounded(4) by (simp add: p_def)
    have "p * 2 ^ 52 \<le> n" using rounded(3) by (simp add: p_def power_add)
    moreover have "n < len * P"
    proof -
      have "0 < n" using rounded(3) by (cases "n = 0") auto
      then have "0 < len" by (cases "len = 0") (auto simp: n_def)
      then show ?thesis unfolding n_def P by (simp add: mantissa_0_9_def)
    qed
    ultimately have "p * 4503599627370496 < len * 9007199254740992" by (simp add: P)
    then have p2: "p < 2 * len" by linarith
    have "10 * round_to_53 n \<le> 10 * n + 10 * p" using rn by simp
    also have "\<dots> < 9 * len * P + P" using ten_n p2 T' by (simp add: P)
    also have "\<dots> = (9 * len + 1) * P" by simp
    also have "\<dots> \<le> (10 * (k + 1)) * P" using k2 by (intro mult_le_mono1)
    finally have "round_to_53 n < (k + 1) * P" by (simp add: algebra_simps)
    with lower show ?thesis by simp
  qed
  have "round_to_53 n div P = k"
    using bounds by (intro div_nat_eqI) (simp_all add: algebra_simps)
  then show ?thesis by (simp add: split_index_def n_def k_def P_def)
qed

text \<open>
  Claim C10. The escape step does nothing to a string: \<^verbatim>\<open>escape\<close> returns a string
  value unchanged (and \<^verbatim>\<open>None\<close> as the text \<^verbatim>\<open>None\<close>), with no quoting and no
  character escaping, so the encoder puts a string parameter between the two
  \<^verbatim>\<open><escape>\<close> markers exactly as it is. A value that itself holds the marker or the
  delimiters is embedded as it is too.
\<close>

theorem escape_is_identity_on_strings:
  "escape (PStr s) = s
   \<and> escape PNone = ''None''
   \<and> param_part (k, PStr s) = k @ '':<escape>'' @ s @ ''<escape>''
   \<and> make_function_call f [(k, PStr s)] =
       ''<start_function_call>call:'' @ f @ ''{'' @ k @ '':<escape>'' @ s
         @ ''<escape>}<end_function_call>''
   \<and> make_function_call ''navigate'' [(''destination'', PStr ''a<escape>,b:<escape>c}'')] =
       ''<start_function_call>call:navigate{destination:<escape>a<escape>,b:<escape>c}<escape>}<end_function_call>''"
  by (simp add: param_part_def make_function_call_def)



end
